theory Spec2Isabelle
  imports Main "HOL-Library.Monad_Syntax"
begin

section \<open>Text primitives of the host language\<close>

text \<open>
  A source text is a \<^typ>\<open>string\<close>: a list of 8-bit characters, each read as one code
  unit in the range 0..255. The character classes below are the ones of the JavaScript
  regular-expression dialect restricted to that range.
\<close>

definition isDigit :: "char \<Rightarrow> bool" where
  "isDigit c = (let n = (of_char c :: nat) in 48 \<le> n \<and> n \<le> 57)"

text \<open>The class \<open>\w\<close>: letters, digits and the underscore.\<close>

definition isWordChar :: "char \<Rightarrow> bool" where
  "isWordChar c = (let n = (of_char c :: nat) in
     (97 \<le> n \<and> n \<le> 122) \<or> (65 \<le> n \<and> n \<le> 90) \<or> (48 \<le> n \<and> n \<le> 57) \<or> n = 95)"

text \<open>
  The class \<open>\s\<close>, which is also what \<open>trim\<close> removes: tab, line feed, vertical tab,
  form feed, carriage return, space and the no-break space.
\<close>

definition isSpace :: "char \<Rightarrow> bool" where
  "isSpace c = (let n = (of_char c :: nat) in (9 \<le> n \<and> n \<le> 13) \<or> n = 32 \<or> n = 160)"

text \<open>Line terminators, which the regular-expression dot does not match.\<close>

definition isLineTerminator :: "char \<Rightarrow> bool" where
  "isLineTerminator c = (let n = (of_char c :: nat) in n = 10 \<or> n = 13)"

definition toLowerChar :: "char \<Rightarrow> char" where
  "toLowerChar c = (let n = (of_char c :: nat) in
     if (65 \<le> n \<and> n \<le> 90) \<or> (192 \<le> n \<and> n \<le> 222 \<and> n \<noteq> 215) then char_of (n + 32) else c)"

definition toLowerCase :: "string \<Rightarrow> string" where
  "toLowerCase s = map toLowerChar s"

definition trim :: "string \<Rightarrow> string" where
  "trim s = rev (dropWhile isSpace (rev (dropWhile isSpace s)))"

text \<open>\<open>s.split('\n')\<close>: always at least one piece.\<close>

fun splitLines :: "string \<Rightarrow> string list" where
  "splitLines [] = [[]]"
| "splitLines (c # cs) =
     (if c = CHR 0x0A then [] # splitLines cs
      else (case splitLines cs of [] \<Rightarrow> [[c]] | l # ls \<Rightarrow> (c # l) # ls))"

fun startsWith :: "string \<Rightarrow> string \<Rightarrow> bool" where
  "startsWith s [] = True"
| "startsWith [] (p # ps) = False"
| "startsWith (c # cs) (p # ps) = (if c = p then startsWith cs ps else False)"

text \<open>\<open>s.includes(sub)\<close>\<close>

fun includesStr :: "string \<Rightarrow> string \<Rightarrow> bool" where
  "includesStr [] sub = (sub = [])"
| "includesStr (c # cs) sub = (if startsWith (c # cs) sub then True else includesStr cs sub)"

text \<open>\<open>xs.slice(a, b)\<close> for indices \<open>0 \<le> a\<close>, \<open>0 \<le> b\<close>.\<close>

definition slice :: "'a list \<Rightarrow> nat \<Rightarrow> nat \<Rightarrow> 'a list" where
  "slice xs a b = take (b - a) (drop a xs)"

text \<open>\<open>xs.join(' ')\<close>\<close>

fun join :: "string list \<Rightarrow> string" where
  "join [] = []"
| "join [x] = x"
| "join (x # y # ys) = x @ CHR '' '' # join (y # ys)"

text \<open>Decimal rendering of a non-negative integer, as a template literal prints it.\<close>

definition digitChar :: "nat \<Rightarrow> char" where
  "digitChar d = char_of (48 + d)"

fun showNat :: "nat \<Rightarrow> string" where
  "showNat n = (if n < 10 then [digitChar n] else showNat (n div 10) @ [digitChar (n mod 10)])"

declare showNat.simps [simp del]

text \<open>
  \<open>parseInt\<close> on a string of decimal digits, as a natural number (the host language's
  numbers are exact below \<open>2^53\<close>).
\<close>

definition digitVal :: "char \<Rightarrow> nat" where
  "digitVal c = of_char c - 48"

definition parseInt :: "string \<Rightarrow> nat" where
  "parseInt ds = foldl (\<lambda>a d. 10 * a + digitVal d) 0 ds"

section \<open>Regular expressions\<close>

text \<open>
  The expressions used by the analyzer are sequences of character classes, starred or
  plussed classes, alternatives of literal words and the word boundary \<open>\b\<close>.
  \<open>rmatch r prev s\<close> holds when \<open>r\<close> matches a prefix of \<open>s\<close>, where \<open>prev\<close> is the
  character before \<open>s\<close> in the subject (for \<open>\b\<close>); \<open>test r s\<close> is \<open>r.test(s)\<close>:
  a match starting anywhere.
\<close>

datatype cclass = Lit char | Word | Space | Digit | Dot | Sign | NotCloseParen

fun inClass :: "cclass \<Rightarrow> char \<Rightarrow> bool" where
  "inClass (Lit a) c = (c = a)"
| "inClass Word c = isWordChar c"
| "inClass Space c = isSpace c"
| "inClass Digit c = isDigit c"
| "inClass Dot c = (\<not> isLineTerminator c)"
| "inClass Sign c = (c = CHR ''-'' \<or> c = CHR ''+'')"
| "inClass NotCloseParen c = (c \<noteq> CHR '')'')"

datatype rx = Cls cclass | Star cclass | Plus cclass | Alt "string list" | Str string | WordB

type_synonym regex = "rx list"

definition wordBefore :: "char option \<Rightarrow> bool" where
  "wordBefore prev = (case prev of None \<Rightarrow> False | Some c \<Rightarrow> isWordChar c)"

definition wordAt :: "string \<Rightarrow> bool" where
  "wordAt s = (case s of [] \<Rightarrow> False | c # _ \<Rightarrow> isWordChar c)"

definition lastOr :: "char option \<Rightarrow> string \<Rightarrow> char option" where
  "lastOr prev w = (if w = [] then prev else Some (last w))"

function rmatch :: "regex \<Rightarrow> char option \<Rightarrow> string \<Rightarrow> bool" where
  "rmatch [] prev s = True"
| "rmatch (Cls k # r) prev [] = False"
| "rmatch (Cls k # r) prev (c # cs) = (if inClass k c then rmatch r (Some c) cs else False)"
| "rmatch (Star k # r) prev [] = rmatch r prev []"
| "rmatch (Star k # r) prev (c # cs) =
     (if rmatch r prev (c # cs) then True
      else if inClass k c then rmatch (Star k # r) (Some c) cs else False)"
| "rmatch (Plus k # r) prev [] = False"
| "rmatch (Plus k # r) prev (c # cs) =
     (if inClass k c then rmatch (Star k # r) (Some c) cs else False)"
| "rmatch (Str w # r) prev s =
     (if startsWith s w then rmatch r (lastOr prev w) (drop (length w) s) else False)"
| "rmatch (Alt ws # r) prev s =
     list_ex (\<lambda>w. if startsWith s w then rmatch r (lastOr prev w) (drop (length w) s) else False) ws"
| "rmatch (WordB # r) prev s =
     (if wordBefore prev \<noteq> wordAt s then rmatch r prev s else False)"
  by pat_completeness auto
termination
  by (relation "measures [\<lambda>(r, prev, s). length r, \<lambda>(r, prev, s). length s]") auto

fun search :: "regex \<Rightarrow> char option \<Rightarrow> string \<Rightarrow> bool" where
  "search r prev [] = rmatch r prev []"
| "search r prev (c # cs) = (if rmatch r prev (c # cs) then True else search r (Some c) cs)"

definition test :: "regex \<Rightarrow> string \<Rightarrow> bool" where
  "test r s = search r None s"

section \<open>Data model\<close>

datatype level = Low | Medium | High

datatype patternType = Loop | Recursion | Nested | Algorithm

datatype suggestionType = Optimization | Refactor | AlgorithmChange

record lineComplexity =
  lc_line :: nat
  lc_code :: string
  lc_complexity :: string
  lc_reason :: string
  lc_severity :: level

record complexityPattern =
  p_type :: patternType
  startLine :: nat
  endLine :: nat
  p_complexity :: string
  p_description :: string
  impact :: level

record suggestion =
  s_line :: nat
  s_type :: suggestionType
  title :: string
  s_description :: string
  example :: "string option"
  priority :: level

record overallComplexity =
  time :: string
  space :: string
  score :: int

text \<open>
  An object with string keys keeps its properties in insertion order; assigning to an
  existing key replaces the value in place.
\<close>

type_synonym dict = "(string \<times> string) list"

fun setProp :: "string \<Rightarrow> string \<Rightarrow> dict \<Rightarrow> dict" where
  "setProp k v [] = [(k, v)]"
| "setProp k v (p # ps) = (if fst p = k then (k, v) # ps else p # setProp k v ps)"

record educationalContent =
  concepts :: "string list"
  explanations :: dict
  examples :: dict

record complexityAnalysis =
  overall :: overallComplexity
  lineByLine :: "lineComplexity list"
  patterns :: "complexityPattern list"
  suggestions :: "suggestion list"
  educational :: educationalContent

section \<open>The structural detector\<close>

record complexityDetector =
  language :: string
  code :: string
  lines :: "string list"

definition newComplexityDetector :: "string \<Rightarrow> string \<Rightarrow> complexityDetector" where
  "newComplexityDetector code0 language0 =
     \<lparr>language = toLowerCase language0, code = code0, lines = splitLines code0\<rparr>"

subsection \<open>Line recognizers\<close>

text \<open>
  Reading a property of the object literal \<open>loopPatterns\<close>: an own key gives its
  expression, the names every object inherits (\<open>constructor\<close>, \<open>__proto__\<close>) give a value
  that is truthy and has no method \<open>test\<close>, and any other name gives \<open>undefined\<close>.
\<close>

datatype 'a property = Own 'a | Inherited | Undefined

definition cFamilyLoop :: regex where
  "cFamilyLoop = [WordB, Alt [''for'', ''while''], Star Space, Cls (Lit (CHR ''(''))]"

definition pythonLoop :: regex where
  "pythonLoop = [WordB, Alt [''for'', ''while''], WordB, Star Dot, Cls (Lit (CHR '':''))]"

definition loopPatterns :: "string \<Rightarrow> regex property" where
  "loopPatterns key =
     (if key = ''cpp'' then Own cFamilyLoop
      else if key = ''java'' then Own cFamilyLoop
      else if key = ''python'' then Own pythonLoop
      else if key = ''constructor'' \<or> key = ''__proto__'' then Inherited
      else Undefined)"

text \<open>
  \<open>pattern ? pattern.test(line) : false\<close>. The result \<open>None\<close> is the type error raised
  when \<open>test\<close> is called on an inherited member.
\<close>

definition loopTest :: "string \<Rightarrow> string \<Rightarrow> bool option" where
  "loopTest lang line =
     (case loopPatterns lang of
        Own pattern \<Rightarrow> Some (test pattern line)
      | Inherited \<Rightarrow> None
      | Undefined \<Rightarrow> Some False)"

definition isLoop :: "complexityDetector \<Rightarrow> string \<Rightarrow> bool option" where
  "isLoop this line = loopTest (language this) line"

definition recursiveCallShape :: regex where
  "recursiveCallShape =
     [Plus Word, Star Space, Cls (Lit (CHR ''('')), Star NotCloseParen, Plus Word, Star Space,
      Cls Sign, Star Space, Plus Digit, Star NotCloseParen, Cls (Lit (CHR '')''))]"

definition isRecursiveCall :: "string \<Rightarrow> bool" where
  "isRecursiveCall line =
     (if includesStr line ''function_name('' then True
      else if includesStr line ''def '' then True
      else test recursiveCallShape line)"

definition collectionPatterns :: "regex list" where
  "collectionPatterns =
     [[Str ''.find(''], [Str ''.filter(''], [Str ''.map(''], [Str ''.forEach(''],
      [Str ''in'', Plus Space, Plus Word], [Str ''.contains(''], [Str ''.indexOf('']]"

definition isCollectionOperation :: "string \<Rightarrow> bool" where
  "isCollectionOperation line = list_ex (\<lambda>pattern. test pattern line) collectionPatterns"

definition hashPatterns :: "regex list" where
  "hashPatterns =
     [[Cls (Lit (CHR ''['')), Star Dot, Cls (Lit (CHR '']'')), Star Space, Cls (Lit (CHR ''=''))],
      [Str ''.get(''], [Str ''.put(''],
      [Cls (Lit (CHR ''['')), Star Dot, Cls (Lit (CHR '']''))]]"

definition isHashOperation :: "string \<Rightarrow> bool" where
  "isHashOperation line = list_ex (\<lambda>pattern. test pattern line) hashPatterns"

definition getNestedLoopDepth :: "string \<Rightarrow> nat" where
  "getNestedLoopDepth line = 0"

subsection \<open>Line-by-line classification\<close>

record lineVerdict =
  v_notation :: string
  v_reason :: string
  v_severity :: level

definition getLineComplexity :: "complexityDetector \<Rightarrow> string \<Rightarrow> lineVerdict option" where
  "getLineComplexity this line =
     (let nestedLoopDepth = getNestedLoopDepth line in
      if nestedLoopDepth > 1 then
        Some \<lparr>v_notation = ''O(n^'' @ showNat nestedLoopDepth @ '')'',
              v_reason = ''Nested loop with depth '' @ showNat nestedLoopDepth,
              v_severity = High\<rparr>
      else do {
        loop \<leftarrow> isLoop this line;
        Some (if loop then
                \<lparr>v_notation = ''O(n)'', v_reason = ''Linear loop iteration'', v_severity = Medium\<rparr>
              else if isRecursiveCall line then
                \<lparr>v_notation = ''O(2^n)'', v_reason = ''Potential exponential recursion'',
                 v_severity = High\<rparr>
              else if isCollectionOperation line then
                \<lparr>v_notation = ''O(n)'', v_reason = ''Collection iteration or search'',
                 v_severity = Medium\<rparr>
              else if isHashOperation line then
                \<lparr>v_notation = ''O(1)'', v_reason = ''Hash table lookup/insertion'', v_severity = Low\<rparr>
              else
                \<lparr>v_notation = ''O(1)'', v_reason = ''Constant time operation'', v_severity = Low\<rparr>)
      })"

definition analyzeLine :: "complexityDetector \<Rightarrow> nat \<times> string \<Rightarrow> lineComplexity option" where
  "analyzeLine this = (\<lambda>(index, line). do {
     complexity \<leftarrow> getLineComplexity this (trim line);
     Some \<lparr>lc_line = index + 1, lc_code = line, lc_complexity = v_notation complexity,
           lc_reason = v_reason complexity, lc_severity = v_severity complexity\<rparr>
   })"

text \<open>\<open>xs.map(f)\<close> where \<open>f\<close> may raise: the first failure ends the traversal.\<close>

fun mapM :: "('a \<Rightarrow> 'b option) \<Rightarrow> 'a list \<Rightarrow> 'b list option" where
  "mapM f [] = Some []"
| "mapM f (x # xs) =
     (case f x of None \<Rightarrow> None
      | Some y \<Rightarrow> (case mapM f xs of None \<Rightarrow> None | Some ys \<Rightarrow> Some (y # ys)))"

definition analyzeLines :: "complexityDetector \<Rightarrow> lineComplexity list option" where
  "analyzeLines this = mapM (analyzeLine this) (enumerate 0 (lines this))"

subsection \<open>Structural patterns\<close>

text \<open>
  The \<open>while\<close> loop of \<open>analyzeNestedStructure\<close>, with its four variables as arguments;
  it returns the final \<open>maxDepth\<close> and \<open>currentLine\<close>.
\<close>

function nestedScan ::
  "complexityDetector \<Rightarrow> nat \<Rightarrow> nat \<Rightarrow> nat \<Rightarrow> nat \<Rightarrow> int \<Rightarrow> (nat \<times> nat) option" where
  "nestedScan this startLine0 depth maxDepth currentLine braceCount =
     (if currentLine < length (lines this) then
        (let line = trim (lines this ! currentLine) in
         case isLoop this line of
           None \<Rightarrow> None
         | Some loop \<Rightarrow>
             (let depth1 = (if loop then depth + 1 else depth);
                  maxDepth1 = (if loop then max maxDepth depth1 else maxDepth);
                  braceCount1 = (if includesStr line ''{'' then braceCount + 1 else braceCount);
                  braceCount2 = (if includesStr line ''}'' then braceCount1 - 1 else braceCount1);
                  depth2 = (if includesStr line ''}'' \<and> depth1 > 0 then depth1 - 1 else depth1)
              in if braceCount2 = 0 \<and> currentLine > startLine0 then Some (maxDepth1, currentLine)
                 else nestedScan this startLine0 depth2 maxDepth1 (currentLine + 1) braceCount2))
      else Some (maxDepth, currentLine))"
  by pat_completeness auto
termination
  by (relation "measure (\<lambda>(this, s, d, m, currentLine, b). length (lines this) - currentLine)") auto

declare nestedScan.simps [simp del]

definition analyzeNestedStructure ::
  "complexityDetector \<Rightarrow> nat \<Rightarrow> complexityPattern option option" where
  "analyzeNestedStructure this startLine0 =
     (case nestedScan this startLine0 0 1 startLine0 0 of
        None \<Rightarrow> None
      | Some (maxDepth, currentLine) \<Rightarrow>
          Some (if maxDepth > 1 then
                  Some \<lparr>p_type = Nested, startLine = startLine0 + 1, endLine = currentLine + 1,
                        p_complexity = ''O(n^'' @ showNat maxDepth @ '')'',
                        p_description = ''Nested loops with depth '' @ showNat maxDepth,
                        impact = (if maxDepth > 2 then High else Medium)\<rparr>
                else None))"

text \<open>The \<open>while\<close> loop of \<open>detectPatterns\<close>, with \<open>i\<close> and the list built so far.\<close>

function detectLoop ::
  "complexityDetector \<Rightarrow> nat \<Rightarrow> complexityPattern list \<Rightarrow> complexityPattern list option" where
  "detectLoop this i patterns0 =
     (if i < length (lines this) then
        (let line = trim (lines this ! i) in
         case isLoop this line of
           None \<Rightarrow> None
         | Some loop \<Rightarrow>
             (case (if loop then analyzeNestedStructure this i else Some None) of
                None \<Rightarrow> None
              | Some (Some nestedPattern) \<Rightarrow>
                  detectLoop this (endLine nestedPattern) (patterns0 @ [nestedPattern])
              | Some None \<Rightarrow>
                  detectLoop this (i + 1)
                    (if isRecursiveCall line then
                       patterns0 @
                         [\<lparr>p_type = Recursion, startLine = i + 1, endLine = i + 1,
                           p_complexity = ''O(2^n)'',
                           p_description = ''Recursive function call detected'',
                           impact = High\<rparr>]
                     else patterns0)))
      else Some patterns0)"
  by pat_completeness auto
termination
proof (relation "measure (\<lambda>(this, i, ps). length (lines this) - i)", goal_cases)
  case 1
  show ?case by simp
next
  case 2
  then show ?case by simp
next
  case (3 this i patterns0 line loop found np)
  have scan: "nestedScan t s d m c b = Some (m', c') \<Longrightarrow> c \<le> c'" for t s d m c b m' c'
  proof (induction t s d m c b rule: nestedScan.induct)
    case (1 t s d m c b)
    show ?case
    proof (cases "c < length (lines t)")
      case False
      with "1.prems" show ?thesis by (simp add: nestedScan.simps)
    next
      case True
      show ?thesis
      proof (cases "isLoop t (trim (lines t ! c))")
        case None
        with "1.prems" True show ?thesis by (simp add: nestedScan.simps)
      next
        case (Some l)
        from "1.prems" True Some "1.IH"[OF True refl Some refl refl refl refl refl] show ?thesis
          by (subst (asm) nestedScan.simps) (auto simp: Let_def split: if_splits)
      qed
    qed
  qed
  from 3 have "loop" by (auto split: if_splits)
  with 3 have "analyzeNestedStructure this i = Some (Some np)" by simp
  then obtain m c where "nestedScan this i 0 1 i 0 = Some (m, c)" and "endLine np = c + 1"
    by (auto simp: analyzeNestedStructure_def split: option.splits if_splits)
  with scan have "i < endLine np" by fastforce
  with 3 show ?case by simp
qed

declare detectLoop.simps [simp del]

definition detectPatterns :: "complexityDetector \<Rightarrow> complexityPattern list option" where
  "detectPatterns this = detectLoop this 0 []"

subsection \<open>Structural suggestions\<close>

definition patternSuggestions :: "complexityPattern \<Rightarrow> suggestion list" where
  "patternSuggestions pattern =
     (if p_type pattern = Nested \<and> impact pattern = High then
        [\<lparr>s_line = startLine pattern, s_type = Optimization,
          title = ''Reduce nested loop complexity'',
          s_description = ''Consider using hash maps, early termination, or breaking the problem into smaller functions.'',
          example = Some ''Use a hash map for O(1) lookups instead of nested loops for searching.'',
          priority = High\<rparr>]
      else []) @
     (if p_type pattern = Recursion then
        [\<lparr>s_line = startLine pattern, s_type = AlgorithmChange,
          title = ''Optimize recursion'',
          s_description = ''Consider using memoization, dynamic programming, or iterative approaches.'',
          example = Some ''Add a cache to store previously computed results.'',
          priority = High\<rparr>]
      else [])"

definition lineSuggestion :: "suggestion list \<Rightarrow> lineComplexity \<Rightarrow> suggestion list" where
  "lineSuggestion suggestions0 l =
     (if lc_severity l = High \<and> \<not> list_ex (\<lambda>s. s_line s = lc_line l) suggestions0 then
        suggestions0 @
          [\<lparr>s_line = lc_line l, s_type = Refactor,
            title = ''Simplify complex operation'',
            s_description = ''This line contributes significantly to overall complexity.'',
            example = None,
            priority = Medium\<rparr>]
      else suggestions0)"

definition generateSuggestions ::
  "lineComplexity list \<Rightarrow> complexityPattern list \<Rightarrow> suggestion list" where
  "generateSuggestions lineAnalysis patterns0 =
     foldl lineSuggestion (concat (map patternSuggestions patterns0)) lineAnalysis"

subsection \<open>Merging suggestions\<close>

definition suggestionKey :: "suggestion \<Rightarrow> string" where
  "suggestionKey s = showNat (s_line s) @ ''-'' @ title s"

text \<open>The \<open>filter\<close> callback with its set \<open>seen\<close> of keys.\<close>

fun unseen :: "string set \<Rightarrow> suggestion list \<Rightarrow> suggestion list" where
  "unseen seen [] = []"
| "unseen seen (s # ss) =
     (let key = suggestionKey s in
      if key \<in> seen then unseen seen ss else s # unseen (insert key seen) ss)"

definition priorityOrder :: "level \<Rightarrow> int" where
  "priorityOrder p = (case p of High \<Rightarrow> 3 | Medium \<Rightarrow> 2 | Low \<Rightarrow> 1)"

definition comparePriority :: "suggestion \<Rightarrow> suggestion \<Rightarrow> int" where
  "comparePriority a b = priorityOrder (priority b) - priorityOrder (priority a)"

text \<open>
  \<open>xs.sort(cmp)\<close>: the sort is stable, so an element moves before another one only when
  the comparator puts it strictly first.
\<close>

fun insertSorted :: "('a \<Rightarrow> 'a \<Rightarrow> int) \<Rightarrow> 'a \<Rightarrow> 'a list \<Rightarrow> 'a list" where
  "insertSorted cmp x [] = [x]"
| "insertSorted cmp x (y # ys) =
     (if cmp x y \<le> 0 then x # y # ys else y # insertSorted cmp x ys)"

definition stableSort :: "('a \<Rightarrow> 'a \<Rightarrow> int) \<Rightarrow> 'a list \<Rightarrow> 'a list" where
  "stableSort cmp xs = foldr (insertSorted cmp) xs []"

definition deduplicateSuggestions :: "suggestion list \<Rightarrow> suggestion list" where
  "deduplicateSuggestions suggestions0 = stableSort comparePriority (unseen {} suggestions0)"

subsection \<open>Educational content\<close>

definition addConcept :: "string \<Rightarrow> string list \<Rightarrow> string list" where
  "addConcept c cs = (if c \<in> set cs then cs else cs @ [c])"

definition educate :: "educationalContent \<Rightarrow> complexityPattern \<Rightarrow> educationalContent" where
  "educate e pattern =
     (case p_type pattern of
        Nested \<Rightarrow>
          \<lparr>concepts = addConcept ''Nested Loops'' (concepts e),
           explanations = setProp ''Nested Loops''
             (''Nested loops multiply time complexity. Two nested loops over n elements result in O(n'' @ [CHR 0xB2] @ '') complexity.'')
             (explanations e),
           examples = setProp ''Nested Loops''
             (''for (int i = 0; i < n; i++) {\<newline>  for (int j = 0; j < n; j++) {\<newline>    // O(n'' @ [CHR 0xB2] @ '') operation\<newline>  }\<newline>}'')
             (examples e)\<rparr>
      | Recursion \<Rightarrow>
          \<lparr>concepts = addConcept ''Recursion'' (concepts e),
           explanations = setProp ''Recursion''
             ''Recursive functions call themselves. Without optimization, they can have exponential complexity.''
             (explanations e),
           examples = setProp ''Recursion''
             ''int fibonacci(int n) {\<newline>  if (n <= 1) return n;\<newline>  return fibonacci(n-1) + fibonacci(n-2); // O(2^n)\<newline>}''
             (examples e)\<rparr>
      | _ \<Rightarrow> e)"

definition generateEducationalContent :: "complexityPattern list \<Rightarrow> educationalContent" where
  "generateEducationalContent patterns0 =
     (let e = foldl educate \<lparr>concepts = [], explanations = [], examples = []\<rparr> patterns0 in
      \<lparr>concepts = addConcept ''Big O Notation'' (concepts e),
       explanations = setProp ''Big O Notation''
         (''Big O describes how algorithm performance scales with input size. O(1) is constant, O(n) is linear, O(n'' @ [CHR 0xB2] @ '') is quadratic.'')
         (explanations e),
       examples = setProp ''Big O Notation''
         (''O(1): array[index]\<newline>O(n): linear search\<newline>O(n'' @ [CHR 0xB2] @ ''): nested loops\<newline>O(log n): binary search'')
         (examples e)\<rparr>)"

subsection \<open>Aggregate scoring\<close>

text \<open>
  \<open>s.match(/n\^(\d+)/)?.[1]\<close>: the digits captured at the leftmost place where \<open>n^\<close> is
  followed by a digit.
\<close>

fun matchExponent :: "string \<Rightarrow> string option" where
  "matchExponent [] = None"
| "matchExponent (c # cs) =
     (if startsWith (c # cs) ''n^'' \<and> takeWhile isDigit (drop 2 (c # cs)) \<noteq> []
      then Some (takeWhile isDigit (drop 2 (c # cs)))
      else matchExponent cs)"

text \<open>The body of the \<open>forEach\<close>, on the pair of \<open>maxComplexity\<close> and \<open>score\<close>.\<close>

definition scorePattern :: "string \<times> int \<Rightarrow> complexityPattern \<Rightarrow> string \<times> int" where
  "scorePattern = (\<lambda>(maxComplexity, score0) pattern.
     if includesStr (p_complexity pattern) ''n^'' then
       (let exponent =
              parseInt (case matchExponent (p_complexity pattern) of None \<Rightarrow> ''2'' | Some ds \<Rightarrow> ds)
        in (''O(n^'' @ showNat exponent @ '')'', score0 - int exponent * 20))
     else if p_complexity pattern = ''O(2^n)'' then (''O(2^n)'', score0 - 40)
     else if p_complexity pattern = ''O(n log n)'' then (''O(n log n)'', score0 - 15)
     else if p_complexity pattern = ''O(n)'' \<and> maxComplexity = ''O(1)'' then (''O(n)'', score0 - 10)
     else (maxComplexity, score0))"

definition calculateOverallComplexity :: "complexityPattern list \<Rightarrow> overallComplexity" where
  "calculateOverallComplexity patterns0 =
     (case foldl scorePattern (''O(1)'', 100) patterns0 of
        (maxComplexity, score0) \<Rightarrow>
          \<lparr>time = maxComplexity, space = ''O(1)'', score = max 0 score0\<rparr>)"

section \<open>The heuristic optimizer\<close>

record aiOptimizer =
  o_code :: string
  o_language :: string
  o_analysis :: complexityAnalysis

definition newAIOptimizer :: "string \<Rightarrow> string \<Rightarrow> complexityAnalysis \<Rightarrow> aiOptimizer" where
  "newAIOptimizer code0 language0 analysis0 =
     \<lparr>o_code = code0, o_language = toLowerCase language0, o_analysis = analysis0\<rparr>"

subsection \<open>Example rewrites\<close>

definition getHashMapExample :: string where
  \<open>getHashMapExample =
     ''// Instead of nested loops:\<newline>'' @
     ''for (int i = 0; i < n; i++) {\<newline>'' @
     ''    for (int j = 0; j < m; j++) {\<newline>'' @
     ''        if (arr1[i] == arr2[j]) { /* found */ }\<newline>'' @
     ''    }\<newline>'' @
     ''}\<newline>'' @
     ''\<newline>'' @
     ''// Use hash map:\<newline>'' @
     ''unordered_set<int> hashSet(arr2, arr2 + m);\<newline>'' @
     ''for (int i = 0; i < n; i++) {\<newline>'' @
     ''    if (hashSet.find(arr1[i]) != hashSet.end()) {\<newline>'' @
     ''        /* found in O(1) */\<newline>'' @
     ''    }\<newline>'' @
     ''}''\<close>

definition getMemoizationExample :: "string \<Rightarrow> string" where
  \<open>getMemoizationExample functionName =
     ''// Add memoization:\<newline>'' @
     ''unordered_map<int, int> memo;\<newline>'' @
     ''\<newline>'' @
     ''int '' @ functionName @ ''(int n) {\<newline>'' @
     ''    if (memo.find(n) != memo.end()) {\<newline>'' @
     ''        return memo[n];\<newline>'' @
     ''    }\<newline>'' @
     ''    if (n <= 1) return n;\<newline>'' @
     ''    memo[n] = '' @ functionName @ ''(n-1) + '' @ functionName @ ''(n-2);\<newline>'' @
     ''    return memo[n];\<newline>'' @
     ''}''\<close>

definition getBinarySearchExample :: string where
  \<open>getBinarySearchExample =
     ''// Replace linear search:\<newline>'' @
     ''for (int i = 0; i < n; i++) {\<newline>'' @
     ''    if (arr[i] == target) return i;\<newline>'' @
     ''}\<newline>'' @
     ''\<newline>'' @
     ''// With binary search:\<newline>'' @
     ''int left = 0, right = n - 1;\<newline>'' @
     ''while (left <= right) {\<newline>'' @
     ''    int mid = left + (right - left) / 2;\<newline>'' @
     ''    if (arr[mid] == target) return mid;\<newline>'' @
     ''    if (arr[mid] < target) left = mid + 1;\<newline>'' @
     ''    else right = mid - 1;\<newline>'' @
     ''}''\<close>

definition getStringBuilderExample :: string where
  \<open>getStringBuilderExample =
     ''// Instead of string concatenation:\<newline>'' @
     ''string result = "";\<newline>'' @
     ''for (int i = 0; i < n; i++) {\<newline>'' @
     ''    result += arr[i]; // O(n'' @ [CHR 0xB2] @ '') complexity\<newline>'' @
     ''}\<newline>'' @
     ''\<newline>'' @
     ''// Use StringBuilder or vector:\<newline>'' @
     ''vector<string> parts;\<newline>'' @
     ''for (int i = 0; i < n; i++) {\<newline>'' @
     ''    parts.push_back(arr[i]);\<newline>'' @
     ''}\<newline>'' @
     ''string result = join(parts); // O(n) complexity''\<close>

definition getMatrixOptimizationExample :: string where
  \<open>getMatrixOptimizationExample =
     ''// Cache-friendly matrix traversal:\<newline>'' @
     ''// Instead of column-major order:\<newline>'' @
     ''for (int j = 0; j < cols; j++) {\<newline>'' @
     ''    for (int i = 0; i < rows; i++) {\<newline>'' @
     ''        process(matrix[i][j]);\<newline>'' @
     ''    }\<newline>'' @
     ''}\<newline>'' @
     ''\<newline>'' @
     ''// Use row-major order:\<newline>'' @
     ''for (int i = 0; i < rows; i++) {\<newline>'' @
     ''    for (int j = 0; j < cols; j++) {\<newline>'' @
     ''        process(matrix[i][j]);\<newline>'' @
     ''    }\<newline>'' @
     ''}''\<close>

definition getDequeExample :: string where
  \<open>getDequeExample =
     ''// Instead of array front insertion:\<newline>'' @
     ''vector<int> arr;\<newline>'' @
     ''arr.insert(arr.begin(), value); // O(n)\<newline>'' @
     ''\<newline>'' @
     ''// Use deque:\<newline>'' @
     ''deque<int> dq;\<newline>'' @
     ''dq.push_front(value); // O(1)''\<close>

definition getHashMapLookupExample :: string where
  \<open>getHashMapLookupExample =
     ''// Replace array lookup:\<newline>'' @
     ''bool found = false;\<newline>'' @
     ''for (int x : arr) {\<newline>'' @
     ''    if (x == target) { found = true; break; }\<newline>'' @
     ''}\<newline>'' @
     ''\<newline>'' @
     ''// With hash map:\<newline>'' @
     ''unordered_set<int> hashSet(arr.begin(), arr.end());\<newline>'' @
     ''bool found = hashSet.count(target) > 0;''\<close>

definition getSetOperationExample :: string where
  \<open>getSetOperationExample =
     ''// Instead of array for unique elements:\<newline>'' @
     ''vector<int> unique_arr;\<newline>'' @
     ''for (int x : arr) {\<newline>'' @
     ''    if (find(unique_arr.begin(), unique_arr.end(), x) == unique_arr.end()) {\<newline>'' @
     ''        unique_arr.push_back(x);\<newline>'' @
     ''    }\<newline>'' @
     ''}\<newline>'' @
     ''\<newline>'' @
     ''// Use set:\<newline>'' @
     ''set<int> unique_set(arr.begin(), arr.end());''\<close>

definition getKMPExample :: string where
  \<open>getKMPExample =
     ''// For repeated string matching, use KMP:\<newline>'' @
     ''vector<int> computeLPS(string pattern) {\<newline>'' @
     ''    int m = pattern.length();\<newline>'' @
     ''    vector<int> lps(m, 0);\<newline>'' @
     ''    int len = 0, i = 1;\<newline>'' @
     ''    \<newline>'' @
     ''    while (i < m) {\<newline>'' @
     ''        if (pattern[i] == pattern[len]) {\<newline>'' @
     ''            lps[i++] = ++len;\<newline>'' @
     ''        } else if (len) {\<newline>'' @
     ''            len = lps[len - 1];\<newline>'' @
     ''        } else {\<newline>'' @
     ''            lps[i++] = 0;\<newline>'' @
     ''        }\<newline>'' @
     ''    }\<newline>'' @
     ''    return lps;\<newline>'' @
     ''}''\<close>

definition getEfficientSortExample :: string where
  \<open>getEfficientSortExample =
     ''// Instead of bubble sort O(n'' @ [CHR 0xB2] @ ''):\<newline>'' @
     ''for (int i = 0; i < n-1; i++) {\<newline>'' @
     ''    for (int j = 0; j < n-i-1; j++) {\<newline>'' @
     ''        if (arr[j] > arr[j+1]) {\<newline>'' @
     ''            swap(arr[j], arr[j+1]);\<newline>'' @
     ''        }\<newline>'' @
     ''    }\<newline>'' @
     ''}\<newline>'' @
     ''\<newline>'' @
     ''// Use built-in sort O(n log n):\<newline>'' @
     ''sort(arr.begin(), arr.end());''\<close>

definition getMergeSortExample :: string where
  \<open>getMergeSortExample =
     ''// Implement merge sort O(n log n):\<newline>'' @
     ''void mergeSort(vector<int>& arr, int left, int right) {\<newline>'' @
     ''    if (left < right) {\<newline>'' @
     ''        int mid = left + (right - left) / 2;\<newline>'' @
     ''        mergeSort(arr, left, mid);\<newline>'' @
     ''        mergeSort(arr, mid + 1, right);\<newline>'' @
     ''        merge(arr, left, mid, right);\<newline>'' @
     ''    }\<newline>'' @
     ''}''\<close>

definition getTailRecursionExample :: "string \<Rightarrow> string" where
  \<open>getTailRecursionExample functionName =
     ''// Convert to tail recursion:\<newline>'' @
     ''int '' @ functionName @ ''Helper(int n, int acc) {\<newline>'' @
     ''    if (n <= 1) return acc;\<newline>'' @
     ''    return '' @ functionName @ ''Helper(n - 1, acc * n);\<newline>'' @
     ''}\<newline>'' @
     ''\<newline>'' @
     ''int '' @ functionName @ ''(int n) {\<newline>'' @
     ''    return '' @ functionName @ ''Helper(n, 1);\<newline>'' @
     ''}''\<close>

definition getCharArrayExample :: string where
  \<open>getCharArrayExample =
     ''// Instead of string concatenation:\<newline>'' @
     ''string result = "";\<newline>'' @
     ''for (char c : chars) {\<newline>'' @
     ''    result += c; // O(n'' @ [CHR 0xB2] @ '')\<newline>'' @
     ''}\<newline>'' @
     ''\<newline>'' @
     ''// Use character array:\<newline>'' @
     ''vector<char> result;\<newline>'' @
     ''for (char c : chars) {\<newline>'' @
     ''    result.push_back(c); // O(n)\<newline>'' @
     ''}\<newline>'' @
     ''string final_result(result.begin(), result.end());''\<close>

definition getInPlaceOperationExample :: string where
  \<open>getInPlaceOperationExample =
     ''// Instead of creating new array:\<newline>'' @
     ''vector<int> doubled;\<newline>'' @
     ''for (int x : arr) {\<newline>'' @
     ''    doubled.push_back(x * 2);\<newline>'' @
     ''}\<newline>'' @
     ''\<newline>'' @
     ''// Modify in-place:\<newline>'' @
     ''for (int& x : arr) {\<newline>'' @
     ''    x *= 2;\<newline>'' @
     ''}''\<close>

definition getSpaceOptimizationExample :: string where
  \<open>getSpaceOptimizationExample =
     ''// Space-optimized approach:\<newline>'' @
     ''// Instead of O(n) extra space:\<newline>'' @
     ''vector<int> temp(n);\<newline>'' @
     ''\<newline>'' @
     ''// Use O(1) space with two pointers:\<newline>'' @
     ''int left = 0, right = n - 1;\<newline>'' @
     ''while (left < right) {\<newline>'' @
     ''    // Process without extra space\<newline>'' @
     ''    left++;\<newline>'' @
     ''    right--;\<newline>'' @
     ''}''\<close>

subsection \<open>Recognizers\<close>

text \<open>
  Methods that read a field of the optimizer take it as their first argument; the others
  are functions of their arguments alone. The optimizer's own table of loop expressions
  has the same three entries as the detector's.
\<close>

definition ai_isLoop :: "aiOptimizer \<Rightarrow> string \<Rightarrow> bool option" where
  "ai_isLoop this line = loopTest (o_language this) line"

text \<open>The \<open>for\<close> loop of \<open>hasNestedLoop\<close>, with \<open>i\<close> and \<open>braceCount\<close> as arguments.\<close>

function nestedLoopScan ::
  "aiOptimizer \<Rightarrow> string list \<Rightarrow> nat \<Rightarrow> nat \<Rightarrow> int \<Rightarrow> bool option" where
  "nestedLoopScan this lines0 startIndex i braceCount =
     (if i < min (startIndex + 20) (length lines0) then
        (let line = trim (lines0 ! i);
             braceCount1 = (if includesStr line ''{'' then braceCount + 1 else braceCount);
             braceCount2 = (if includesStr line ''}'' then braceCount1 - 1 else braceCount1)
         in case (if braceCount2 > 0 then ai_isLoop this line else Some False) of
              None \<Rightarrow> None
            | Some loop \<Rightarrow>
                if braceCount2 > 0 \<and> loop \<and> i > startIndex then Some True
                else if braceCount2 = 0 \<and> i > startIndex then Some False
                else nestedLoopScan this lines0 startIndex (i + 1) braceCount2)
      else Some False)"
  by pat_completeness auto
termination
  by (relation "measure (\<lambda>(this, lines0, startIndex, i, b). min (startIndex + 20) (length lines0) - i)")
     auto

declare nestedLoopScan.simps [simp del]

definition hasNestedLoop :: "aiOptimizer \<Rightarrow> string list \<Rightarrow> nat \<Rightarrow> bool option" where
  "hasNestedLoop this lines0 startIndex = nestedLoopScan this lines0 startIndex startIndex 0"

record loopContext =
  isSearching :: bool
  isMatrixOperation :: bool

definition getLoopContext :: "string list \<Rightarrow> nat \<Rightarrow> loopContext" where
  "getLoopContext lines0 startIndex =
     (let window = map toLowerCase (slice lines0 startIndex (min (startIndex + 10) (length lines0)))
      in \<lparr>isSearching =
            list_ex (\<lambda>line. includesStr line ''=='' \<or> includesStr line ''find'' \<or>
                            includesStr line ''search'') window,
          isMatrixOperation =
            list_ex (\<lambda>line. includesStr line ''[i][j]'' \<or> includesStr line ''matrix'' \<or>
                            includesStr line ''grid'') window\<rparr>)"

definition isRecursiveFunction :: "string \<Rightarrow> bool" where
  "isRecursiveFunction line =
     (includesStr line ''def '' \<or> includesStr line ''function '' \<or>
      (includesStr line ''('' \<and> includesStr line '')'' \<and> includesStr line ''{''))"

text \<open>
  \<open>line.match(/(?:def|function)\s+(\w+)|(\w+)\s*\(/)\<close>: at each position from the left,
  first the keyword alternative, then the call alternative; the captured name is the
  longest run of word characters.
\<close>

definition keywordCapture :: "string \<Rightarrow> string option" where
  "keywordCapture s =
     (let rest = (if startsWith s ''def'' then Some (drop 3 s)
                  else if startsWith s ''function'' then Some (drop 8 s)
                  else None)
      in case rest of
           None \<Rightarrow> None
         | Some r \<Rightarrow>
             (let name = takeWhile isWordChar (dropWhile isSpace r) in
              if takeWhile isSpace r \<noteq> [] \<and> name \<noteq> [] then Some name else None))"

definition callCapture :: "string \<Rightarrow> string option" where
  "callCapture s =
     (let name = takeWhile isWordChar s;
          rest = dropWhile isSpace (dropWhile isWordChar s)
      in if name \<noteq> [] \<and> startsWith rest ''('' then Some name else None)"

fun matchFunctionName :: "string \<Rightarrow> string option" where
  "matchFunctionName [] = None"
| "matchFunctionName (c # cs) =
     (case keywordCapture (c # cs) of
        Some name \<Rightarrow> Some name
      | None \<Rightarrow>
          (case callCapture (c # cs) of
             Some name \<Rightarrow> Some name
           | None \<Rightarrow> matchFunctionName cs))"

definition extractFunctionName :: "string \<Rightarrow> string" where
  "extractFunctionName line =
     (case matchFunctionName line of Some name \<Rightarrow> name | None \<Rightarrow> ''function'')"

definition isFibonacciPattern :: "string list \<Rightarrow> nat \<Rightarrow> bool" where
  "isFibonacciPattern lines0 startIndex =
     (let functionBody = join (slice lines0 startIndex (min (startIndex + 10) (length lines0)))
      in includesStr functionBody ''fibonacci'' \<or>
         (includesStr functionBody ''n-1'' \<and> includesStr functionBody ''n-2''))"

definition canOptimizeToTailRecursion :: "string list \<Rightarrow> nat \<Rightarrow> bool" where
  "canOptimizeToTailRecursion lines0 startIndex =
     list_ex (\<lambda>line. includesStr line ''return'' \<and> includesStr line ''('' \<and>
                     \<not> includesStr line ''+'' \<and> \<not> includesStr line ''*'')
       (slice lines0 startIndex (min (startIndex + 15) (length lines0)))"

definition hasArrayInsertionAtBeginning :: "string \<Rightarrow> bool" where
  "hasArrayInsertionAtBeginning line =
     (includesStr line ''.insert(0'' \<or> includesStr line ''.unshift('' \<or>
      includesStr line ''insert(arr.begin()'')"

text \<open>On natural numbers \<open>index - 3\<close> is \<open>Math.max(0, index - 3)\<close>.\<close>

definition hasFrequentArrayLookups :: "string list \<Rightarrow> nat \<Rightarrow> bool" where
  "hasFrequentArrayLookups lines0 index =
     (let context = slice lines0 (index - 3) (min (length lines0) (index + 3));
          lookupCount = length (filter (\<lambda>line. includesStr line ''.find('' \<or>
                                  includesStr line ''.indexOf('' \<or> includesStr line ''in '') context)
      in lookupCount \<ge> 2)"

definition hasSetOperationsOnArray :: "string \<Rightarrow> bool" where
  "hasSetOperationsOnArray line =
     ((includesStr line ''unique'' \<or> includesStr line ''distinct'') \<and>
      (includesStr line ''array'' \<or> includesStr line ''list'' \<or> includesStr line ''vector''))"

definition isLinearSearchInSortedArray :: "aiOptimizer \<Rightarrow> string list \<Rightarrow> nat \<Rightarrow> bool option" where
  "isLinearSearchInSortedArray this lines0 index =
     (let context = slice lines0 (index - 5) (min (length lines0) (index + 5));
          hasSortedComment = list_ex (\<lambda>line. includesStr (toLowerCase line) ''sorted'' \<or>
                                        includesStr (toLowerCase line) ''ascending'') context
      in do {
        hasLinearSearch \<leftarrow> (if includesStr (lines0 ! index) ''=='' then ai_isLoop this (lines0 ! index)
                            else Some False);
        Some (hasSortedComment \<and> hasLinearSearch)
      })"

definition hasSubstringSearch :: "string \<Rightarrow> bool" where
  "hasSubstringSearch line =
     (includesStr line ''.find('' \<or> includesStr line ''.indexOf('' \<or>
      includesStr line ''substring'' \<or> includesStr line ''strstr'')"

definition isBubbleSort :: "aiOptimizer \<Rightarrow> string list \<Rightarrow> nat \<Rightarrow> bool option" where
  "isBubbleSort this lines0 index =
     (let context = join (slice lines0 index (min (index + 8) (length lines0))) in
      if includesStr context ''bubble'' then Some True
      else if includesStr context ''swap'' \<and> includesStr context ''j+1''
      then hasNestedLoop this lines0 index
      else Some False)"

definition isSelectionSort :: "aiOptimizer \<Rightarrow> string list \<Rightarrow> nat \<Rightarrow> bool option" where
  "isSelectionSort this lines0 index =
     (let context = join (slice lines0 index (min (index + 10) (length lines0))) in
      if includesStr context ''selection'' then Some True
      else if includesStr context ''min'' \<and> includesStr context ''swap''
      then hasNestedLoop this lines0 index
      else Some False)"

definition hasStringConcatenationInLoop :: "aiOptimizer \<Rightarrow> string list \<Rightarrow> nat \<Rightarrow> bool option" where
  \<open>hasStringConcatenationInLoop this lines0 index = do {
     loop \<leftarrow> ai_isLoop this (lines0 ! index);
     Some (loop \<and>
           list_ex (\<lambda>line. includesStr line ''+='' \<and>
                           (includesStr line ''"'' \<or> includesStr line [CHR 0x27]))
             (slice lines0 index (min (index + 5) (length lines0))))
   }\<close>

definition hasCharacterByCharacterBuilding :: "string \<Rightarrow> bool" where
  "hasCharacterByCharacterBuilding line =
     (includesStr line ''charAt'' \<or> (includesStr line ''[i]'' \<and> includesStr line ''string''))"

definition hasUnnecessaryArrayCopy :: "string \<Rightarrow> bool" where
  "hasUnnecessaryArrayCopy line =
     (includesStr line ''.copy()'' \<or> includesStr line ''.clone()'' \<or>
      includesStr line ''Arrays.copyOf'' \<or> includesStr line ''memcpy'')"

definition hasSpaceInefficiency :: "string list \<Rightarrow> nat \<Rightarrow> bool" where
  "hasSpaceInefficiency lines0 index =
     list_ex (\<lambda>line. includesStr line ''new '' \<and>
                     (includesStr line ''[n]'' \<or> includesStr line ''vector<''))
       (slice lines0 index (min (index + 5) (length lines0)))"

subsection \<open>The seven analyzers\<close>

text \<open>
  Each analyzer is a \<open>for\<close> loop over the line indices that appends to a list; the
  function named \<open>...At\<close> is the loop body at index \<open>i\<close>, and \<open>forEachIndex\<close> runs it
  from \<open>0\<close> to \<open>n - 1\<close>, stopping at the first failure.
\<close>

definition forEachIndex :: "(nat \<Rightarrow> 'a list option) \<Rightarrow> nat \<Rightarrow> 'a list option" where
  "forEachIndex body n = map_option concat (mapM body [0..<n])"

definition nestedLoopsAt :: "aiOptimizer \<Rightarrow> string list \<Rightarrow> nat \<Rightarrow> suggestion list option" where
  "nestedLoopsAt this lines0 i =
     (let line = trim (lines0 ! i) in do {
        loop \<leftarrow> ai_isLoop this line;
        nested \<leftarrow> (if loop then hasNestedLoop this lines0 i else Some False);
        Some (if loop \<and> nested then
                (let context = getLoopContext lines0 i in
                 (if isSearching context then
                    [\<lparr>s_line = i + 1, s_type = Optimization,
                      title = ''Replace nested loop search with hash map'',
                      s_description = (''Convert O(n'' @ [CHR 0xB2] @ '') nested loop search to O(n) using a hash map for constant-time lookups.''),
                      example = Some getHashMapExample, priority = High\<rparr>]
                  else []) @
                 (if isMatrixOperation context then
                    [\<lparr>s_line = i + 1, s_type = AlgorithmChange,
                      title = ''Optimize matrix operations'',
                      s_description = ''Consider cache-friendly iteration patterns or specialized matrix algorithms.'',
                      example = Some getMatrixOptimizationExample, priority = Medium\<rparr>]
                  else []))
              else [])
      })"

definition analyzeNestedLoops :: "aiOptimizer \<Rightarrow> string list \<Rightarrow> suggestion list option" where
  "analyzeNestedLoops this lines0 = forEachIndex (nestedLoopsAt this lines0) (length lines0)"

definition recursionAt :: "string list \<Rightarrow> nat \<Rightarrow> suggestion list" where
  "recursionAt lines0 i =
     (let line = trim (lines0 ! i) in
      if isRecursiveFunction line then
        (let functionName = extractFunctionName line in
         (if isFibonacciPattern lines0 i then
            [\<lparr>s_line = i + 1, s_type = AlgorithmChange,
              title = ''Implement memoization for recursive function'',
              s_description = ''Add memoization to avoid redundant calculations and reduce time complexity from O(2^n) to O(n).'',
              example = Some (getMemoizationExample functionName), priority = High\<rparr>]
          else []) @
         (if canOptimizeToTailRecursion lines0 i then
            [\<lparr>s_line = i + 1, s_type = Optimization,
              title = ''Convert to tail recursion or iterative approach'',
              s_description = ''Optimize stack usage by converting to tail recursion or an iterative solution.'',
              example = Some (getTailRecursionExample functionName), priority = Medium\<rparr>]
          else []))
      else [])"

definition analyzeRecursionPatterns :: "string list \<Rightarrow> suggestion list" where
  "analyzeRecursionPatterns lines0 = concat (map (recursionAt lines0) [0..<length lines0])"

definition dataStructureAt :: "string list \<Rightarrow> nat \<Rightarrow> suggestion list" where
  "dataStructureAt lines0 i =
     (let line = trim (lines0 ! i) in
      (if hasArrayInsertionAtBeginning line then
         [\<lparr>s_line = i + 1, s_type = Optimization,
           title = ''Use deque for efficient front insertions'',
           s_description = ''Array insertions at the beginning are O(n). Consider using a deque or linked list for O(1) front insertions.'',
           example = Some getDequeExample, priority = Medium\<rparr>]
       else []) @
      (if hasFrequentArrayLookups lines0 i then
         [\<lparr>s_line = i + 1, s_type = Optimization,
           title = ''Replace array with hash map for faster lookups'',
           s_description = ''Convert O(n) array searches to O(1) hash map lookups for better performance.'',
           example = Some getHashMapLookupExample, priority = High\<rparr>]
       else []) @
      (if hasSetOperationsOnArray line then
         [\<lparr>s_line = i + 1, s_type = Optimization,
           title = ''Use Set data structure for unique elements'',
           s_description = ''Set operations on arrays are inefficient. Use a Set data structure for O(1) add/remove/contains operations.'',
           example = Some getSetOperationExample, priority = Medium\<rparr>]
       else []))"

definition analyzeDataStructureUsage :: "string list \<Rightarrow> suggestion list" where
  "analyzeDataStructureUsage lines0 = concat (map (dataStructureAt lines0) [0..<length lines0])"

definition searchAt :: "aiOptimizer \<Rightarrow> string list \<Rightarrow> nat \<Rightarrow> suggestion list option" where
  "searchAt this lines0 i =
     (let line = trim (lines0 ! i) in do {
        linear \<leftarrow> isLinearSearchInSortedArray this lines0 i;
        Some ((if linear then
                 [\<lparr>s_line = i + 1, s_type = AlgorithmChange,
                   title = ''Use binary search for sorted arrays'',
                   s_description = ''Replace O(n) linear search with O(log n) binary search for sorted data.'',
                   example = Some getBinarySearchExample, priority = High\<rparr>]
               else []) @
              (if hasSubstringSearch line then
                 [\<lparr>s_line = i + 1, s_type = AlgorithmChange,
                   title = ''Consider KMP algorithm for string matching'',
                   s_description = ''For repeated string searches, KMP algorithm provides O(n+m) complexity instead of O(n*m).'',
                   example = Some getKMPExample, priority = Medium\<rparr>]
               else []))
      })"

definition analyzeSearchPatterns :: "aiOptimizer \<Rightarrow> string list \<Rightarrow> suggestion list option" where
  "analyzeSearchPatterns this lines0 = forEachIndex (searchAt this lines0) (length lines0)"

definition sortingAt :: "aiOptimizer \<Rightarrow> string list \<Rightarrow> nat \<Rightarrow> suggestion list option" where
  "sortingAt this lines0 i = do {
     bubble \<leftarrow> isBubbleSort this lines0 i;
     selection \<leftarrow> isSelectionSort this lines0 i;
     Some ((if bubble then
              [\<lparr>s_line = i + 1, s_type = AlgorithmChange,
                title = ''Replace bubble sort with efficient sorting algorithm'',
                s_description = (''Bubble sort has O(n'' @ [CHR 0xB2] @ '') complexity. Use quicksort, mergesort, or built-in sort functions for O(n log n) performance.''),
                example = Some getEfficientSortExample, priority = High\<rparr>]
            else []) @
           (if selection then
              [\<lparr>s_line = i + 1, s_type = AlgorithmChange,
                title = ''Upgrade from selection sort to merge sort'',
                s_description = (''Selection sort is O(n'' @ [CHR 0xB2] @ ''). Consider merge sort or heap sort for guaranteed O(n log n) performance.''),
                example = Some getMergeSortExample, priority = High\<rparr>]
            else []))
   }"

definition analyzeSortingPatterns :: "aiOptimizer \<Rightarrow> string list \<Rightarrow> suggestion list option" where
  "analyzeSortingPatterns this lines0 = forEachIndex (sortingAt this lines0) (length lines0)"

definition stringAt :: "aiOptimizer \<Rightarrow> string list \<Rightarrow> nat \<Rightarrow> suggestion list option" where
  "stringAt this lines0 i =
     (let line = trim (lines0 ! i) in do {
        concatenation \<leftarrow> hasStringConcatenationInLoop this lines0 i;
        Some ((if concatenation then
                 [\<lparr>s_line = i + 1, s_type = Optimization,
                   title = ''Use StringBuilder for string concatenation in loops'',
                   s_description = (''String concatenation in loops creates O(n'' @ [CHR 0xB2] @ '') complexity. Use StringBuilder or string arrays for O(n) performance.''),
                   example = Some getStringBuilderExample, priority = High\<rparr>]
               else []) @
              (if hasCharacterByCharacterBuilding line then
                 [\<lparr>s_line = i + 1, s_type = Optimization,
                   title = ''Optimize character-by-character string operations'',
                   s_description = ''Consider using character arrays or StringBuilder for efficient string manipulation.'',
                   example = Some getCharArrayExample, priority = Medium\<rparr>]
               else []))
      })"

definition analyzeStringOperations :: "aiOptimizer \<Rightarrow> string list \<Rightarrow> suggestion list option" where
  "analyzeStringOperations this lines0 = forEachIndex (stringAt this lines0) (length lines0)"

definition memoryAt :: "string list \<Rightarrow> nat \<Rightarrow> suggestion list" where
  "memoryAt lines0 i =
     (let line = trim (lines0 ! i) in
      (if hasUnnecessaryArrayCopy line then
         [\<lparr>s_line = i + 1, s_type = Optimization,
           title = ''Avoid unnecessary array copying'',
           s_description = ''Array copying is O(n) operation. Consider using array slicing or in-place operations when possible.'',
           example = Some getInPlaceOperationExample, priority = Medium\<rparr>]
       else []) @
      (if hasSpaceInefficiency lines0 i then
         [\<lparr>s_line = i + 1, s_type = Optimization,
           title = ''Optimize space complexity'',
           s_description = ''Consider space-time trade-offs. Sometimes using O(1) extra space instead of O(n) can be beneficial.'',
           example = Some getSpaceOptimizationExample, priority = Low\<rparr>]
       else []))"

definition analyzeMemoryOptimizations :: "string list \<Rightarrow> suggestion list" where
  "analyzeMemoryOptimizations lines0 = concat (map (memoryAt lines0) [0..<length lines0])"

definition generateAISuggestions :: "aiOptimizer \<Rightarrow> suggestion list option" where
  "generateAISuggestions this =
     (let lines0 = splitLines (o_code this) in do {
        nestedLoops \<leftarrow> analyzeNestedLoops this lines0;
        searches \<leftarrow> analyzeSearchPatterns this lines0;
        sortings \<leftarrow> analyzeSortingPatterns this lines0;
        strings \<leftarrow> analyzeStringOperations this lines0;
        Some (nestedLoops @ analyzeRecursionPatterns lines0 @ analyzeDataStructureUsage lines0 @
              searches @ sortings @ strings @ analyzeMemoryOptimizations lines0)
      })"

section \<open>The entry point\<close>

definition analyze :: "complexityDetector \<Rightarrow> complexityAnalysis option" where
  "analyze this = do {
     lineByLine0 \<leftarrow> analyzeLines this;
     patterns0 \<leftarrow> detectPatterns this;
     let basicSuggestions = generateSuggestions lineByLine0 patterns0;
     let educational0 = generateEducationalContent patterns0;
     let overall0 = calculateOverallComplexity patterns0;
     let preliminaryAnalysis =
           \<lparr>overall = overall0, lineByLine = lineByLine0, patterns = patterns0,
            suggestions = basicSuggestions, educational = educational0\<rparr>;
     let aiOptimizer = newAIOptimizer (code this) (language this) preliminaryAnalysis;
     aiSuggestions \<leftarrow> generateAISuggestions aiOptimizer;
     let allSuggestions = basicSuggestions @ aiSuggestions;
     let uniqueSuggestions = deduplicateSuggestions allSuggestions;
     Some \<lparr>overall = overall0, lineByLine = lineByLine0, patterns = patterns0,
           suggestions = uniqueSuggestions, educational = educational0\<rparr>
   }"

text \<open>\<open>new ComplexityDetector(code, language).analyze()\<close>, as the application calls it.\<close>

definition analyzeCode :: "string \<Rightarrow> string \<Rightarrow> complexityAnalysis option" where
  "analyzeCode code0 language0 = analyze (newComplexityDetector code0 language0)"

section \<open>Notions used in the statements\<close>

text \<open>
  A pattern fires a scoring branch of the aggregate fold when one of the four conditions
  of \<open>calculateOverallComplexity\<close> holds for it under the current time label; the
  label a firing pattern sets is \<open>branchLabel\<close>. \<open>firesAt ps i\<close> says that the
  pattern at index \<open>i\<close> fires when the fold reaches it.
\<close>

definition firesBranch :: "string \<Rightarrow> complexityPattern \<Rightarrow> bool" where
  "firesBranch current pattern =
     (includesStr (p_complexity pattern) ''n^'' \<or> p_complexity pattern = ''O(2^n)'' \<or>
      p_complexity pattern = ''O(n log n)'' \<or>
      (p_complexity pattern = ''O(n)'' \<and> current = ''O(1)''))"

definition branchLabel :: "complexityPattern \<Rightarrow> string" where
  "branchLabel pattern =
     (if includesStr (p_complexity pattern) ''n^'' then
        ''O(n^'' @
        showNat (parseInt (case matchExponent (p_complexity pattern) of
                             None \<Rightarrow> ''2'' | Some ds \<Rightarrow> ds)) @ '')''
      else p_complexity pattern)"

definition firesAt :: "complexityPattern list \<Rightarrow> nat \<Rightarrow> bool" where
  "firesAt ps i = firesBranch (time (calculateOverallComplexity (take i ps))) (ps ! i)"

definition labelled :: "string \<Rightarrow> complexityPattern" where
  "labelled c = \<lparr>p_type = Algorithm, startLine = 1, endLine = 1, p_complexity = c,
                 p_description = [], impact = Low\<rparr>"

text \<open>
  A nested pattern is well placed when it starts at a line of the input, does not end
  before it starts, ends at most one line after the last line, and carries a label
  \<open>O(n^d)\<close> with \<open>d\<close> at least 2.
\<close>

definition wellPlaced :: "complexityDetector \<Rightarrow> complexityPattern \<Rightarrow> bool" where
  "wellPlaced this p \<longleftrightarrow>
     (p_type p = Nested \<longrightarrow>
        1 \<le> startLine p \<and> startLine p \<le> endLine p \<and> endLine p \<le> length (lines this) + 1 \<and>
        (\<exists>d\<ge>2. p_complexity p = ''O(n^'' @ showNat d @ '')''))"

section \<open>Sample inputs\<close>

text \<open>Scenario A: a single loop over an array, in the C family.\<close>

definition singleLoop :: string where
  "singleLoop = ''for(i=0;i<n;i++){\<newline>sum+=arr[i];\<newline>}''"

text \<open>Scenario C: the recursive Fibonacci function in Python.\<close>

definition fibonacciPython :: string where
  "fibonacciPython =
     ''def fibonacci(n):\<newline>'' @
     ''    if n <= 1:\<newline>'' @
     ''        return n\<newline>'' @
     ''    return fibonacci(n-1) + fibonacci(n-2)''"

text \<open>Two nested loops whose two closing braces share the last line.\<close>

definition compactNest :: string where
  "compactNest =
     ''for (int i = 0; i < n; i++) {\<newline>'' @
     ''  for (int j = 0; j < n; j++) {\<newline>'' @
     ''    sum += a[i][j]; }}''"

definition loopHeader :: string where
  "loopHeader = ''for (int i = 0; i < n; i++) {''"

definition whileHeader :: string where
  "whileHeader = ''while (i+1 < n) {''"

text \<open>
  Three suggestions for line 3: the first and the last share their title and differ in
  description and priority.
\<close>

definition firstNote :: suggestion where
  "firstNote =
     \<lparr>s_line = 3, s_type = Refactor, title = ''Simplify complex operation'',
      s_description = ''first'', example = None, priority = Low\<rparr>"

definition otherNote :: suggestion where
  "otherNote =
     \<lparr>s_line = 3, s_type = AlgorithmChange, title = ''Optimize recursion'',
      s_description = ''other'', example = None, priority = Medium\<rparr>"

definition laterNote :: suggestion where
  "laterNote =
     \<lparr>s_line = 3, s_type = Optimization, title = ''Simplify complex operation'',
      s_description = ''later'', example = None, priority = High\<rparr>"

definition duplicated :: "suggestion list" where
  "duplicated = [firstNote, otherNote, laterNote]"

text \<open>An analysis with nothing in it, to pass to the optimizer's constructor.\<close>

definition emptyAnalysis :: complexityAnalysis where
  "emptyAnalysis =
     \<lparr>overall = \<lparr>time = [], space = [], score = 0\<rparr>, lineByLine = [], patterns = [],
      suggestions = [], educational = \<lparr>concepts = [], explanations = [], examples = []\<rparr>\<rparr>"

section \<open>The optimizer does not read the detector's analysis\<close>

lemma ai_isLoop_cong:
  "o_language this = o_language this' \<Longrightarrow> ai_isLoop this line = ai_isLoop this' line"
  by (simp add: ai_isLoop_def)

lemma nestedLoopScan_cong:
  "o_language this = o_language this' \<Longrightarrow>
   nestedLoopScan this lines0 startIndex i b = nestedLoopScan this' lines0 startIndex i b"
proof (induction this lines0 startIndex i b rule: nestedLoopScan.induct)
  case (1 this lines0 startIndex i braceCount)
  note lang = "1.prems"
  show ?case
    apply (subst nestedLoopScan.simps[of this lines0 startIndex i braceCount])
    apply (subst nestedLoopScan.simps[of this' lines0 startIndex i braceCount])
    apply (rule if_cong[OF refl _ refl])
    apply (unfold Let_def)
    apply (rule option.case_cong)
      apply (simp only: ai_isLoop_cong[OF lang] cong: if_cong)
     apply (rule refl)
    apply (rule if_cong[OF refl refl])
    apply (rule if_cong[OF refl refl])
    apply (rule "1.IH"[OF _ refl refl refl _ _ _ lang])
       apply assumption
      apply (simp only: ai_isLoop_cong[OF lang] cong: if_cong)
     apply assumption
    apply assumption
    done
qed

lemma hasNestedLoop_cong:
  "o_language this = o_language this' \<Longrightarrow> hasNestedLoop this lines0 i = hasNestedLoop this' lines0 i"
  unfolding hasNestedLoop_def by (rule nestedLoopScan_cong)

lemma generateAISuggestions_cong:
  assumes code: "o_code this = o_code this'" and lang: "o_language this = o_language this'"
  shows "generateAISuggestions this = generateAISuggestions this'"
proof -
  have l: "ai_isLoop this = ai_isLoop this'"
    by (intro ext) (rule ai_isLoop_cong[OF lang])
  have h: "hasNestedLoop this = hasNestedLoop this'"
    by (intro ext) (rule hasNestedLoop_cong[OF lang])
  have a: "nestedLoopsAt this = nestedLoopsAt this'"
    by (intro ext) (simp only: nestedLoopsAt_def l h)
  have b: "searchAt this = searchAt this'"
    by (intro ext) (simp only: searchAt_def isLinearSearchInSortedArray_def l)
  have c: "sortingAt this = sortingAt this'"
    by (intro ext) (simp only: sortingAt_def isBubbleSort_def isSelectionSort_def h)
  have d: "stringAt this = stringAt this'"
    by (intro ext) (simp only: stringAt_def hasStringConcatenationInLoop_def l)
  show ?thesis
    by (simp only: generateAISuggestions_def analyzeNestedLoops_def analyzeSearchPatterns_def
      analyzeSortingPatterns_def analyzeStringOperations_def a b c d code)
qed

text \<open>
  C9: for every code text and language tag, the optimizer's suggestion list is the same
  for any two analyses passed to its constructor; it depends on the text and the tag only.
\<close>

theorem optimizer_ignores_analysis:
  "generateAISuggestions (newAIOptimizer code0 language0 analysis1) =
   generateAISuggestions (newAIOptimizer code0 language0 analysis2)"
  by (rule generateAISuggestions_cong) (simp_all add: newAIOptimizer_def)

section \<open>Evaluations on the sample inputs\<close>

text \<open>
  Each lemma runs the whole analysis on one sample input and records the parts of the
  result that the statements below refer to.
\<close>

lemma singleLoop_analysis:
  "\<exists>r. analyzeCode singleLoop ''cpp'' = Some r \<and> time (overall r) = ''O(1)'' \<and>
       score (overall r) = 100 \<and> map lc_severity (lineByLine r) = [Medium, Low, Low] \<and>
       patterns r = []"
proof -
  have "map_option (\<lambda>r. (time (overall r), score (overall r), map lc_severity (lineByLine r),
          patterns r)) (analyzeCode singleLoop ''cpp'') = Some (''O(1)'', 100, [Medium, Low, Low], [])"
    by code_simp
  then show ?thesis by auto
qed

lemma fibonacci_analysis:
  "\<exists>r. analyzeCode fibonacciPython ''python'' = Some r \<and>
       map p_type (patterns r) = [Recursion, Recursion] \<and>
       map p_complexity (patterns r) = [''O(2^n)'', ''O(2^n)''] \<and>
       map startLine (patterns r) = [1, 4] \<and>
       time (overall r) = ''O(2^n)'' \<and> score (overall r) = 20 \<and>
       map s_line (suggestions r) = [1, 4, 1] \<and>
       map title (suggestions r) =
         [''Optimize recursion'', ''Optimize recursion'',
          ''Implement memoization for recursive function''] \<and>
       map priority (suggestions r) = [High, High, High] \<and>
       map example (suggestions r) =
         [Some ''Add a cache to store previously computed results.'',
          Some ''Add a cache to store previously computed results.'',
          Some (getMemoizationExample ''fibonacci'')]"
proof -
  have "map_option (\<lambda>r. (map p_type (patterns r), map p_complexity (patterns r),
          map startLine (patterns r), time (overall r), score (overall r),
          map s_line (suggestions r), map title (suggestions r), map priority (suggestions r),
          map example (suggestions r))) (analyzeCode fibonacciPython ''python'') =
        Some ([Recursion, Recursion], [''O(2^n)'', ''O(2^n)''], [1, 4], ''O(2^n)'', 20, [1, 4, 1],
          [''Optimize recursion'', ''Optimize recursion'',
           ''Implement memoization for recursive function''],
          [High, High, High],
          [Some ''Add a cache to store previously computed results.'',
           Some ''Add a cache to store previously computed results.'',
           Some (getMemoizationExample ''fibonacci'')])"
    by code_simp
  then show ?thesis by auto
qed

lemma compactNest_analysis:
  "\<exists>r. analyzeCode compactNest ''cpp'' = Some r \<and> map p_type (patterns r) = [Nested] \<and>
       map startLine (patterns r) = [1] \<and> map endLine (patterns r) = [4] \<and>
       map p_complexity (patterns r) = [''O(n^2)'']"
proof -
  have "map_option (\<lambda>r. (map p_type (patterns r), map startLine (patterns r),
          map endLine (patterns r), map p_complexity (patterns r)))
          (analyzeCode compactNest ''cpp'') = Some ([Nested], [1], [4], [''O(n^2)''])"
    by code_simp
  then show ?thesis by auto
qed

lemma loopHeader_javascript:
  "\<exists>r. analyzeCode loopHeader ''javascript'' = Some r \<and> map lc_severity (lineByLine r) = [Low]"
proof -
  have "map_option (\<lambda>r. map lc_severity (lineByLine r)) (analyzeCode loopHeader ''javascript'') =
        Some [Low]"
    by code_simp
  then show ?thesis by auto
qed

lemma loopHeader_cpp:
  "\<exists>r. analyzeCode loopHeader ''cpp'' = Some r \<and> map lc_severity (lineByLine r) = [Medium]"
proof -
  have "map_option (\<lambda>r. map lc_severity (lineByLine r)) (analyzeCode loopHeader ''cpp'') =
        Some [Medium]"
    by code_simp
  then show ?thesis by auto
qed

lemma whileHeader_analysis:
  "\<exists>r. analyzeCode whileHeader ''cpp'' = Some r \<and> map lc_severity (lineByLine r) = [Medium]"
proof -
  have "map_option (\<lambda>r. map lc_severity (lineByLine r)) (analyzeCode whileHeader ''cpp'') =
        Some [Medium]"
    by code_simp
  then show ?thesis by auto
qed

lemma whileHeader_recursive: "isRecursiveCall (trim whileHeader)"
  by code_simp

lemma compactNest_lines: "length (splitLines compactNest) = 3"
  by code_simp

lemma memoization_names_function:
  "includesStr (getMemoizationExample ''fibonacci'') ''fibonacci''"
  by code_simp

lemma fib_defined: "analyzeCode fibonacciPython ''python'' \<noteq> None"
  using fibonacci_analysis by auto

section \<open>When the analysis returns\<close>

text \<open>
  The analysis returns a result for every input and every language tag, except the two
  tags whose lower-case form names a member that the table of loop expressions inherits:
  for these the first call of the loop-header recognizer raises a type error.
\<close>

lemma toLowerChar_idem: "toLowerChar (toLowerChar c) = toLowerChar c"
  by (auto simp: toLowerChar_def Let_def)

lemma toLowerCase_idem: "toLowerCase (toLowerCase s) = toLowerCase s"
  by (simp add: toLowerCase_def toLowerChar_idem)

lemma loopTest_returns: "loopPatterns lang \<noteq> Inherited \<Longrightarrow> \<exists>b. loopTest lang line = Some b"
  by (cases "loopPatterns lang") (auto simp: loopTest_def)

lemma mapM_returns: "(\<And>x. x \<in> set xs \<Longrightarrow> \<exists>y. f x = Some y) \<Longrightarrow> \<exists>ys. mapM f xs = Some ys"
proof (induction xs)
  case Nil
  show ?case by simp
next
  case (Cons x xs)
  from Cons.prems[of x] obtain y where y: "f x = Some y" by auto
  from Cons.IH Cons.prems obtain ys where ys: "mapM f xs = Some ys" by auto
  from y ys show ?case by simp
qed

lemma analyzeLines_returns:
  assumes "loopPatterns (language this) \<noteq> Inherited"
  shows "\<exists>ls. analyzeLines this = Some ls"
  unfolding analyzeLines_def
proof (rule mapM_returns)
  fix x assume "x \<in> set (enumerate 0 (lines this))"
  obtain i line where x: "x = (i, line)" by (cases x)
  from loopTest_returns[OF assms] obtain b where "isLoop this (trim line) = Some b"
    unfolding isLoop_def by blast
  then show "\<exists>y. analyzeLine this x = Some y"
    by (simp add: x analyzeLine_def getLineComplexity_def getNestedLoopDepth_def)
qed

lemma nestedScan_returns:
  "loopPatterns (language this) \<noteq> Inherited \<Longrightarrow> \<exists>res. nestedScan this s d m c b = Some res"
proof (induction this s d m c b rule: nestedScan.induct)
  case (1 this s d m c b)
  show ?case
  proof (cases "c < length (lines this)")
    case False
    then show ?thesis by (simp add: nestedScan.simps[of this s d m c b])
  next
    case True
    from loopTest_returns[OF "1.prems"] obtain l where l: "isLoop this (trim (lines this ! c)) = Some l"
      unfolding isLoop_def by blast
    from True l "1.IH"[OF True refl l refl refl refl refl refl _ "1.prems"] show ?thesis
      by (subst nestedScan.simps) (auto simp: Let_def)
  qed
qed

lemma analyzeNestedStructure_returns:
  "loopPatterns (language this) \<noteq> Inherited \<Longrightarrow> \<exists>res. analyzeNestedStructure this i = Some res"
  using nestedScan_returns[of this i 0 1 i 0]
  by (auto simp: analyzeNestedStructure_def split: prod.splits)

lemma detectLoop_returns:
  "loopPatterns (language this) \<noteq> Inherited \<Longrightarrow> \<exists>ps. detectLoop this i ps0 = Some ps"
proof (induction this i ps0 rule: detectLoop.induct)
  case (1 this i ps0)
  note good = "1.prems"
  show ?case
  proof (cases "i < length (lines this)")
    case False
    then show ?thesis by (simp add: detectLoop.simps[of this i ps0])
  next
    case True
    let ?line = "trim (lines this ! i)"
    from loopTest_returns[OF good] obtain loop where loop: "isLoop this ?line = Some loop"
      unfolding isLoop_def by blast
    let ?res = "if loop then analyzeNestedStructure this i else Some None"
    from analyzeNestedStructure_returns[OF good, of i] obtain found where found: "?res = Some found"
      by (cases loop) auto
    show ?thesis
    proof (cases found)
      case None
      from "1.IH"(1)[OF True refl loop found None good] True loop found None show ?thesis
        by (simp add: detectLoop.simps[of this i ps0])
    next
      case (Some np)
      from "1.IH"(2)[OF True refl loop found Some good] True loop found Some show ?thesis
        by (simp add: detectLoop.simps[of this i ps0])
    qed
  qed
qed

lemma nestedLoopScan_returns:
  "loopPatterns (o_language this) \<noteq> Inherited \<Longrightarrow>
   \<exists>b. nestedLoopScan this lines0 startIndex i braceCount = Some b"
proof (induction this lines0 startIndex i braceCount rule: nestedLoopScan.induct)
  case (1 this lines0 startIndex i braceCount)
  note good = "1.prems"
  let ?line = "trim (lines0 ! i)"
  let ?b1 = "if includesStr ?line ''{'' then braceCount + 1 else braceCount"
  let ?b2 = "if includesStr ?line ''}'' then ?b1 - 1 else ?b1"
  let ?res = "if 0 < ?b2 then ai_isLoop this ?line else Some False"
  show ?case
  proof (cases "i < min (startIndex + 20) (length lines0)")
    case False
    then show ?thesis
      by (simp only: nestedLoopScan.simps[of this lines0 startIndex i braceCount] if_False) blast
  next
    case True
    from loopTest_returns[OF good] obtain loop where loop: "?res = Some loop"
      unfolding ai_isLoop_def by (cases "0 < ?b2") auto
    show ?thesis
    proof (cases "(0 < ?b2 \<and> loop \<and> startIndex < i) \<or> (?b2 = 0 \<and> startIndex < i)")
      case stop: True
      from stop loop True show ?thesis
        unfolding nestedLoopScan.simps[of this lines0 startIndex i braceCount] Let_def
        by (auto simp del: min_less_iff_conj)
    next
      case False
      then have n1: "\<not> (0 < ?b2 \<and> loop \<and> startIndex < i)" and n2: "\<not> (?b2 = 0 \<and> startIndex < i)"
        by blast+
      from "1.IH"[OF True refl refl refl loop n1 n2 good]
      obtain b where "nestedLoopScan this lines0 startIndex (i + 1) ?b2 = Some b" by blast
      with loop True n1 n2 show ?thesis
        unfolding nestedLoopScan.simps[of this lines0 startIndex i braceCount] Let_def
        by (auto simp del: min_less_iff_conj)
    qed
  qed
qed

lemma forEachIndex_returns:
  "(\<And>i. \<exists>xs. body i = Some xs) \<Longrightarrow> \<exists>ys. forEachIndex body n = Some ys"
  using mapM_returns[of "[0..<n]" body] by (auto simp: forEachIndex_def)

lemma generateAISuggestions_returns:
  assumes good: "loopPatterns (o_language this) \<noteq> Inherited"
  shows "\<exists>ai. generateAISuggestions this = Some ai"
proof -
  have l: "\<exists>b. ai_isLoop this line = Some b" for line
    using loopTest_returns[OF good] by (simp add: ai_isLoop_def)
  have h: "\<exists>b. hasNestedLoop this lines0 i = Some b" for lines0 i
    using nestedLoopScan_returns[OF good] by (simp add: hasNestedLoop_def)
  have a: "\<exists>xs. nestedLoopsAt this lines0 i = Some xs" for lines0 i
  proof -
    from l obtain b where b: "ai_isLoop this (trim (lines0 ! i)) = Some b" by blast
    from h obtain n where n: "hasNestedLoop this lines0 i = Some n" by blast
    from b n show ?thesis by (cases b) (simp_all add: nestedLoopsAt_def)
  qed
  have s: "\<exists>xs. searchAt this lines0 i = Some xs" for lines0 i
  proof -
    from l obtain b where b: "ai_isLoop this (lines0 ! i) = Some b" by blast
    then show ?thesis by (simp add: searchAt_def isLinearSearchInSortedArray_def)
  qed
  have t: "\<exists>xs. sortingAt this lines0 i = Some xs" for lines0 i
  proof -
    from h obtain n where n: "hasNestedLoop this lines0 i = Some n" by blast
    then have "\<exists>b. isBubbleSort this lines0 i = Some b" "\<exists>b. isSelectionSort this lines0 i = Some b"
      by (auto simp: isBubbleSort_def isSelectionSort_def Let_def)
    then show ?thesis by (auto simp: sortingAt_def)
  qed
  have g: "\<exists>xs. stringAt this lines0 i = Some xs" for lines0 i
  proof -
    from l obtain b where b: "ai_isLoop this (lines0 ! i) = Some b" by blast
    then show ?thesis by (simp add: stringAt_def hasStringConcatenationInLoop_def)
  qed
  let ?ls = "splitLines (o_code this)"
  from forEachIndex_returns[of "nestedLoopsAt this ?ls", OF a]
  obtain x1 where x1: "analyzeNestedLoops this ?ls = Some x1" by (auto simp: analyzeNestedLoops_def)
  from forEachIndex_returns[of "searchAt this ?ls", OF s]
  obtain x2 where x2: "analyzeSearchPatterns this ?ls = Some x2" by (auto simp: analyzeSearchPatterns_def)
  from forEachIndex_returns[of "sortingAt this ?ls", OF t]
  obtain x3 where x3: "analyzeSortingPatterns this ?ls = Some x3" by (auto simp: analyzeSortingPatterns_def)
  from forEachIndex_returns[of "stringAt this ?ls", OF g]
  obtain x4 where x4: "analyzeStringOperations this ?ls = Some x4" by (auto simp: analyzeStringOperations_def)
  from x1 x2 x3 x4 show ?thesis by (simp add: generateAISuggestions_def Let_def)
qed

lemma analyzeCode_returns:
  assumes "toLowerCase language0 \<notin> {''constructor'', ''__proto__''}"
  shows "\<exists>r. analyzeCode code0 language0 = Some r"
proof -
  let ?d = "newComplexityDetector code0 language0"
  from assms have good: "loopPatterns (language ?d) \<noteq> Inherited"
    by (simp add: newComplexityDetector_def loopPatterns_def)
  from analyzeLines_returns[OF good] obtain ls where ls: "analyzeLines ?d = Some ls" by blast
  from detectLoop_returns[OF good] obtain ps where ps: "detectPatterns ?d = Some ps"
    unfolding detectPatterns_def by blast
  have "\<exists>ai. generateAISuggestions (newAIOptimizer (code ?d) (language ?d) a) = Some ai" for a
  proof (rule generateAISuggestions_returns)
    from good show "loopPatterns (o_language (newAIOptimizer (code ?d) (language ?d) a)) \<noteq> Inherited"
      by (simp add: newAIOptimizer_def newComplexityDetector_def toLowerCase_idem)
  qed
  with ls ps show ?thesis
    unfolding analyzeCode_def analyze_def Let_def by (simp add: bind_eq_Some_conv)
qed

lemma splitLines_nonempty: "splitLines s \<noteq> []"
  by (induction s) (auto split: list.splits)

lemma analyzeCode_raises:
  assumes "toLowerCase language0 \<in> {''constructor'', ''__proto__''}"
  shows "analyzeCode code0 language0 = None"
proof -
  let ?d = "newComplexityDetector code0 language0"
  from assms have bad: "loopPatterns (language ?d) = Inherited"
    by (auto simp: newComplexityDetector_def loopPatterns_def)
  obtain l ls where ls: "lines ?d = l # ls"
    using splitLines_nonempty[of code0] by (cases "splitLines code0") (auto simp: newComplexityDetector_def)
  from bad have "analyzeLine ?d (0, l) = None"
    by (simp add: analyzeLine_def getLineComplexity_def getNestedLoopDepth_def isLoop_def
        loopTest_def)
  with ls have "analyzeLines ?d = None"
    by (simp add: analyzeLines_def)
  then show ?thesis by (simp add: analyzeCode_def analyze_def)
qed

section \<open>The aggregate score\<close>

lemma scorePattern_le: "snd (scorePattern (t, s) p) \<le> s"
  by (simp add: scorePattern_def Let_def)

lemma foldl_scorePattern_le: "snd (foldl scorePattern (t, s) ps) \<le> s"
proof (induction ps arbitrary: t s)
  case Nil
  show ?case by simp
next
  case (Cons p ps)
  obtain t' s' where st: "scorePattern (t, s) p = (t', s')" by (cases "scorePattern (t, s) p")
  with scorePattern_le[of t s p] have "s' \<le> s" by simp
  moreover have "snd (foldl scorePattern (t', s') ps) \<le> s'" by (rule Cons.IH)
  ultimately show ?case using st by simp
qed

lemma calculateOverallComplexity_bounds:
  "0 \<le> score (calculateOverallComplexity ps) \<and> score (calculateOverallComplexity ps) \<le> 100
   \<and> space (calculateOverallComplexity ps) = ''O(1)''"
  using foldl_scorePattern_le[of "''O(1)''" 100 ps]
  by (auto simp: calculateOverallComplexity_def split: prod.splits)

lemma analyze_SomeD:
  assumes "analyze this = Some r"
  shows "\<exists>ls ps ai. analyzeLines this = Some ls \<and> detectPatterns this = Some ps \<and>
           generateAISuggestions (newAIOptimizer (code this) (language this) a) = Some ai \<and>
           overall r = calculateOverallComplexity ps \<and> lineByLine r = ls \<and> patterns r = ps \<and>
           suggestions r = deduplicateSuggestions (generateSuggestions ls ps @ ai)"
proof -
  from assms obtain ls ps ai0 a0 where
    "analyzeLines this = Some ls" "detectPatterns this = Some ps"
    "generateAISuggestions (newAIOptimizer (code this) (language this) a0) = Some ai0"
    "r = \<lparr>overall = calculateOverallComplexity ps, lineByLine = ls, patterns = ps,
          suggestions = deduplicateSuggestions (generateSuggestions ls ps @ ai0),
          educational = generateEducationalContent ps\<rparr>"
    unfolding analyze_def Let_def bind_eq_Some_conv by blast
  moreover have "generateAISuggestions (newAIOptimizer (code this) (language this) a) =
                 generateAISuggestions (newAIOptimizer (code this) (language this) a0)"
    by (rule generateAISuggestions_cong) (simp_all add: newAIOptimizer_def)
  ultimately show ?thesis by simp
qed

text \<open>
  C8: for every input and language tag, the overall score is an integer between 0 and
  100, and the space label is \<open>O(1)\<close>.
\<close>

theorem score_bounds:
  assumes "analyzeCode code0 language0 = Some r"
  shows "0 \<le> score (overall r) \<and> score (overall r) \<le> 100 \<and> space (overall r) = ''O(1)''"
proof -
  from assms obtain ps where "overall r = calculateOverallComplexity ps"
    using analyze_SomeD[of "newComplexityDetector code0 language0" r] unfolding analyzeCode_def by blast
  then show ?thesis by (simp only: calculateOverallComplexity_bounds simp_thms)
qed

theorem score_bounds_witness:
  "\<exists>r. analyzeCode fibonacciPython ''python'' = Some r \<and>
       0 \<le> score (overall r) \<and> score (overall r) \<le> 100 \<and> space (overall r) = ''O(1)''"
proof -
  from fib_defined obtain r where r: "analyzeCode fibonacciPython ''python'' = Some r" by blast
  from r score_bounds[OF r] show ?thesis by blast
qed

section \<open>The overall time label\<close>

lemma scorePattern_label:
  "fst (scorePattern (t, s) p) = (if firesBranch t p then branchLabel p else t)"
  by (simp add: scorePattern_def firesBranch_def branchLabel_def Let_def)

lemma time_calculate:
  "time (calculateOverallComplexity ps) = fst (foldl scorePattern (''O(1)'', 100) ps)"
  by (simp add: calculateOverallComplexity_def split: prod.splits)

lemma time_snoc:
  "time (calculateOverallComplexity (ps @ [p])) =
     (if firesBranch (time (calculateOverallComplexity ps)) p then branchLabel p
      else time (calculateOverallComplexity ps))"
proof -
  obtain t s where ts: "foldl scorePattern (''O(1)'', 100) ps = (t, s)"
    by (cases "foldl scorePattern (''O(1)'', 100) ps")
  then show ?thesis
    using scorePattern_label[of t s p] by (simp add: time_calculate)
qed

lemma firesAt_snoc: "i < length ps \<Longrightarrow> firesAt (ps @ [p]) i = firesAt ps i"
  by (simp add: firesAt_def nth_append)

lemma firesAt_last:
  "firesAt (ps @ [p]) (length ps) = firesBranch (time (calculateOverallComplexity ps)) p"
  by (simp add: firesAt_def)

lemma time_none_fire:
  "(\<forall>i<length ps. \<not> firesAt ps i) \<Longrightarrow> time (calculateOverallComplexity ps) = ''O(1)''"
proof (induction ps rule: rev_induct)
  case Nil
  show ?case by (simp add: calculateOverallComplexity_def)
next
  case (snoc p ps)
  have "\<forall>i<length ps. \<not> firesAt ps i"
    using snoc.prems firesAt_snoc[of _ ps p] by simp
  then have "time (calculateOverallComplexity ps) = ''O(1)''" by (rule snoc.IH)
  moreover have "\<not> firesAt (ps @ [p]) (length ps)" using snoc.prems by simp
  ultimately show ?case by (simp add: time_snoc firesAt_last)
qed

lemma time_last_fire:
  "i < length ps \<Longrightarrow> firesAt ps i \<Longrightarrow> (\<forall>j<length ps. i < j \<longrightarrow> \<not> firesAt ps j) \<Longrightarrow>
   time (calculateOverallComplexity ps) = branchLabel (ps ! i)"
proof (induction ps rule: rev_induct)
  case Nil
  then show ?case by simp
next
  case (snoc p ps)
  show ?case
  proof (cases "i = length ps")
    case True
    with snoc.prems(2) show ?thesis by (simp add: time_snoc firesAt_last)
  next
    case False
    with snoc.prems(1) have i: "i < length ps" by simp
    with snoc.prems(2) have f: "firesAt ps i" by (simp add: firesAt_snoc)
    have later: "\<forall>j<length ps. i < j \<longrightarrow> \<not> firesAt ps j"
    proof (intro allI impI)
      fix j assume j: "j < length ps" "i < j"
      then have "\<not> firesAt (ps @ [p]) j" using snoc.prems(3) by simp
      with j show "\<not> firesAt ps j" by (simp add: firesAt_snoc)
    qed
    have "\<not> firesAt (ps @ [p]) (length ps)" using snoc.prems(3) i by simp
    then have "time (calculateOverallComplexity (ps @ [p])) = time (calculateOverallComplexity ps)"
      by (simp add: time_snoc firesAt_last)
    with snoc.IH[OF i f later] i show ?thesis by (simp add: nth_append)
  qed
qed

text \<open>
  C5: for every pattern list, the overall time label is the label set by the last pattern,
  in list order, that fires a scoring branch (and \<open>O(1)\<close> when none fires), not the
  worst label; a pattern labelled \<open>O(n)\<close> changes the label only when it is still
  \<open>O(1)\<close>; a pattern labelled \<open>O(2^n)\<close> followed by one labelled \<open>O(n^2)\<close> gives
  \<open>O(n^2)\<close>.
\<close>

theorem overall_time_last_firing:
  "(\<forall>i<length ps. firesAt ps i \<longrightarrow> (\<forall>j<length ps. i < j \<longrightarrow> \<not> firesAt ps j) \<longrightarrow>
       time (calculateOverallComplexity ps) = branchLabel (ps ! i)) \<and>
   ((\<forall>i<length ps. \<not> firesAt ps i) \<longrightarrow> time (calculateOverallComplexity ps) = ''O(1)'') \<and>
   (p_complexity p = ''O(n)'' \<longrightarrow>
      scorePattern (current, s) p =
        (if current = ''O(1)'' then (''O(n)'', s - 10) else (current, s))) \<and>
   (p_complexity p1 = ''O(2^n)'' \<longrightarrow> p_complexity p2 = ''O(n^2)'' \<longrightarrow>
      time (calculateOverallComplexity [p1, p2]) = ''O(n^2)'')"
proof (intro conjI allI impI)
  fix i assume "i < length ps" "firesAt ps i" "\<forall>j<length ps. i < j \<longrightarrow> \<not> firesAt ps j"
  then show "time (calculateOverallComplexity ps) = branchLabel (ps ! i)" by (rule time_last_fire)
next
  assume "\<forall>i<length ps. \<not> firesAt ps i"
  then show "time (calculateOverallComplexity ps) = ''O(1)''" by (rule time_none_fire)
next
  assume "p_complexity p = ''O(n)''"
  then show "scorePattern (current, s) p =
        (if current = ''O(1)'' then (''O(n)'', s - 10) else (current, s))"
    by (simp add: scorePattern_def)
next
  assume "p_complexity p1 = ''O(2^n)''" "p_complexity p2 = ''O(n^2)''"
  moreover have "includesStr ''O(n^2)'' ''n^''" by code_simp
  moreover have "matchExponent ''O(n^2)'' = Some ''2''" by code_simp
  moreover have "parseInt ''2'' = 2" by code_simp
  moreover have "showNat 2 = ''2''" by code_simp
  ultimately show "time (calculateOverallComplexity [p1, p2]) = ''O(n^2)''"
    by (simp add: calculateOverallComplexity_def scorePattern_def)
qed

theorem overall_time_last_firing_witness:
  "firesAt [labelled ''O(n)'', labelled ''O(2^n)'', labelled ''O(n)''] 1 \<and>
   \<not> firesAt [labelled ''O(n)'', labelled ''O(2^n)'', labelled ''O(n)''] 2 \<and>
   time (calculateOverallComplexity [labelled ''O(n)'', labelled ''O(2^n)'', labelled ''O(n)'']) =
     ''O(2^n)'' \<and>
   scorePattern (''O(2^n)'', 50) (labelled ''O(n)'') = (''O(2^n)'', 50) \<and>
   time (calculateOverallComplexity [labelled ''O(2^n)'', labelled ''O(n^2)'']) = ''O(n^2)''"
proof -
  let ?ps = "[labelled ''O(n)'', labelled ''O(2^n)'', labelled ''O(n)'']"
  have f1: "firesAt ?ps 1" by code_simp
  have f2: "\<not> firesAt ?ps 2" by code_simp
  have later: "\<forall>j<length ?ps. 1 < j \<longrightarrow> \<not> firesAt ?ps j"
  proof (intro allI impI)
    fix j assume "j < length ?ps" "1 < j"
    then have "j = 2" by simp
    with f2 show "\<not> firesAt ?ps j" by simp
  qed
  have l: "branchLabel (?ps ! 1) = ''O(2^n)''" by code_simp
  note t = overall_time_last_firing[of ?ps "labelled ''O(n)''" "''O(2^n)''" 50
      "labelled ''O(2^n)''" "labelled ''O(n^2)''"]
  have len: "1 < length ?ps" by simp
  from t len f1 later have "time (calculateOverallComplexity ?ps) = branchLabel (?ps ! 1)"
    by blast
  with l have a: "time (calculateOverallComplexity ?ps) = ''O(2^n)''" by simp
  from t have b: "scorePattern (''O(2^n)'', 50) (labelled ''O(n)'') = (''O(2^n)'', 50)"
    by (simp add: labelled_def)
  from t have c: "time (calculateOverallComplexity [labelled ''O(2^n)'', labelled ''O(n^2)'']) = ''O(n^2)''"
    by (simp add: labelled_def)
  from f1 f2 a b c show ?thesis by simp
qed

section \<open>Deduplication and ordering of suggestions\<close>

lemma digitChar_digit: "d < 10 \<Longrightarrow> isDigit (digitChar d) \<and> digitVal (digitChar d) = d"
  by (simp add: isDigit_def digitChar_def digitVal_def)

lemma showNat_digits: "c \<in> set (showNat n) \<Longrightarrow> isDigit c"
proof (induction n arbitrary: c rule: showNat.induct)
  case (1 n)
  show ?case
  proof (cases "n < 10")
    case True
    with "1.prems" show ?thesis by (simp add: showNat.simps[of n] digitChar_digit)
  next
    case False
    with "1.prems" have "c \<in> set (showNat (n div 10)) \<or> c = digitChar (n mod 10)"
      by (auto simp: showNat.simps[of n])
    then show ?thesis
    proof
      assume "c \<in> set (showNat (n div 10))"
      then show ?thesis using False by (rule "1.IH"[rotated])
    next
      assume "c = digitChar (n mod 10)"
      then show ?thesis by (simp add: digitChar_digit)
    qed
  qed
qed

lemma parseInt_snoc: "parseInt (ds @ [d]) = 10 * parseInt ds + digitVal d"
  by (simp add: parseInt_def)

lemma parseInt_showNat: "parseInt (showNat n) = n"
proof (induction n rule: showNat.induct)
  case (1 n)
  show ?case
  proof (cases "n < 10")
    case True
    then show ?thesis by (simp add: showNat.simps[of n] parseInt_def digitChar_digit)
  next
    case False
    then have "parseInt (showNat (n div 10)) = n div 10" by (rule "1.IH")
    with False show ?thesis
      by (simp add: showNat.simps[of n] parseInt_snoc digitChar_digit)
  qed
qed

lemma showNat_inj: "showNat a = showNat b \<Longrightarrow> a = b"
  by (metis parseInt_showNat)

lemma dash_not_in_showNat: "CHR ''-'' \<notin> set (showNat n)"
proof
  assume "CHR ''-'' \<in> set (showNat n)"
  then have "isDigit CHR ''-''" by (rule showNat_digits)
  then show False by (simp add: isDigit_def)
qed

lemma append_sep_eq_iff:
  "c \<notin> set xs \<Longrightarrow> c \<notin> set xs' \<Longrightarrow> xs @ c # ys = xs' @ c # ys' \<longleftrightarrow> xs = xs' \<and> ys = ys'"
proof (induction xs arbitrary: xs')
  case Nil
  then show ?case by (cases xs') auto
next
  case (Cons x xs)
  then show ?case by (cases xs') auto
qed

lemma suggestionKey_eq_iff:
  "suggestionKey s = suggestionKey t \<longleftrightarrow> s_line s = s_line t \<and> title s = title t"
proof -
  have "showNat (s_line s) @ CHR ''-'' # title s = showNat (s_line t) @ CHR ''-'' # title t
        \<longleftrightarrow> showNat (s_line s) = showNat (s_line t) \<and> title s = title t"
    by (rule append_sep_eq_iff[OF dash_not_in_showNat dash_not_in_showNat])
  then show ?thesis by (auto simp: suggestionKey_def dest: showNat_inj)
qed

lemma unseen_keys:
  "suggestionKey ` set (unseen seen ss) = suggestionKey ` set ss - seen"
  by (induction ss arbitrary: seen) (auto simp: Let_def)

lemma unseen_distinct: "distinct (map suggestionKey (unseen seen ss))"
proof (induction ss arbitrary: seen)
  case Nil
  show ?case by simp
next
  case (Cons s ss)
  have "suggestionKey s \<notin> suggestionKey ` set (unseen (insert (suggestionKey s) seen) ss)"
    by (simp add: unseen_keys)
  with Cons.IH show ?case by (simp add: Let_def)
qed

lemma unseen_first:
  "s \<in> set (unseen seen ss) \<Longrightarrow> find (\<lambda>t. suggestionKey t = suggestionKey s) ss = Some s"
proof (induction ss arbitrary: seen)
  case Nil
  then show ?case by simp
next
  case (Cons s0 ss)
  show ?case
  proof (cases "suggestionKey s0 \<in> seen")
    case True
    with Cons.prems have in_rest: "s \<in> set (unseen seen ss)" by (simp add: Let_def)
    then have "suggestionKey s \<in> suggestionKey ` set (unseen seen ss)" by (rule imageI)
    then have "suggestionKey s \<notin> seen" by (simp add: unseen_keys)
    with True have "suggestionKey s0 \<noteq> suggestionKey s" by auto
    with Cons.IH[OF in_rest] show ?thesis by simp
  next
    case False
    with Cons.prems have "s = s0 \<or> s \<in> set (unseen (insert (suggestionKey s0) seen) ss)"
      by (simp add: Let_def)
    then show ?thesis
    proof
      assume "s = s0"
      then show ?thesis by simp
    next
      assume in_rest: "s \<in> set (unseen (insert (suggestionKey s0) seen) ss)"
      then have "suggestionKey s \<in> suggestionKey ` set (unseen (insert (suggestionKey s0) seen) ss)"
        by (rule imageI)
      then have "suggestionKey s0 \<noteq> suggestionKey s" by (auto simp: unseen_keys)
      with Cons.IH[OF in_rest] show ?thesis by simp
    qed
  qed
qed

lemma set_insertSorted: "set (insertSorted cmp x ys) = insert x (set ys)"
  by (induction ys) auto

lemma set_stableSort: "set (stableSort cmp xs) = set xs"
  by (induction xs) (simp_all add: stableSort_def set_insertSorted)

lemma distinct_insertSorted:
  "distinct (map f (insertSorted cmp x ys)) \<longleftrightarrow> f x \<notin> f ` set ys \<and> distinct (map f ys)"
  by (induction ys) (auto simp: set_insertSorted)

lemma distinct_stableSort:
  "distinct (map f (stableSort cmp xs)) \<longleftrightarrow> distinct (map f xs)"
  by (induction xs) (simp_all add: stableSort_def distinct_insertSorted set_stableSort[unfolded stableSort_def])

lemma comparePriority_le:
  "comparePriority a b \<le> 0 \<longleftrightarrow> priorityOrder (priority b) \<le> priorityOrder (priority a)"
  by (simp add: comparePriority_def)

lemma sorted_insertSorted:
  "sorted_wrt (\<lambda>a b. priorityOrder (priority b) \<le> priorityOrder (priority a)) ys \<Longrightarrow>
   sorted_wrt (\<lambda>a b. priorityOrder (priority b) \<le> priorityOrder (priority a))
     (insertSorted comparePriority x ys)"
  by (induction ys) (auto simp: set_insertSorted comparePriority_le)

lemma sorted_stableSort:
  "sorted_wrt (\<lambda>a b. priorityOrder (priority b) \<le> priorityOrder (priority a))
     (stableSort comparePriority xs)"
  by (induction xs) (simp_all add: stableSort_def sorted_insertSorted)

lemma filter_insertSorted:
  "filter (\<lambda>s. priority s = p) (insertSorted comparePriority x ys) =
     (if priority x = p then x # filter (\<lambda>s. priority s = p) ys
      else filter (\<lambda>s. priority s = p) ys)"
  by (induction ys) (auto simp: comparePriority_def)

lemma filter_stableSort:
  "filter (\<lambda>s. priority s = p) (stableSort comparePriority xs) = filter (\<lambda>s. priority s = p) xs"
  by (induction xs) (simp_all add: stableSort_def filter_insertSorted)

lemma distinct_map_finer:
  assumes "distinct (map f xs)" and finer: "\<And>x y. g x = g y \<Longrightarrow> f x = f y"
  shows "distinct (map g xs)"
  using assms(1)
proof (induction xs)
  case Nil
  show ?case by simp
next
  case (Cons x xs)
  have "g x \<notin> g ` set xs"
  proof
    assume "g x \<in> g ` set xs"
    then obtain y where y: "y \<in> set xs" "g x = g y" by blast
    from finer[OF y(2)] y(1) have "f x \<in> f ` set xs" by simp
    with Cons.prems show False by simp
  qed
  with Cons show ?case by simp
qed


lemma analyzeCode_SomeD:
  assumes "analyzeCode code0 language0 = Some r"
  shows "\<exists>ai. generateAISuggestions (newAIOptimizer code0 (toLowerCase language0) analysis0) = Some ai \<and>
           suggestions r =
             deduplicateSuggestions (generateSuggestions (lineByLine r) (patterns r) @ ai)"
  using analyze_SomeD[OF assms[unfolded analyzeCode_def], of analysis0]
  by (auto simp: newComplexityDetector_def)

text \<open>
  C6: for every list of suggestions, no two suggestions of the deduplicated list share a
  pair of line and title, each suggestion of the deduplicated list is the first one with
  its pair in the given list, and every pair of the given list is kept; for every input
  and language tag, the suggestions returned by the analysis are the deduplicated list of
  the detector's suggestions followed by the optimizer's.
\<close>

theorem suggestions_deduplicated:
  "distinct (map (\<lambda>s. (s_line s, title s)) (deduplicateSuggestions ss)) \<and>
   (\<forall>s\<in>set (deduplicateSuggestions ss).
      find (\<lambda>t. s_line t = s_line s \<and> title t = title s) ss = Some s) \<and>
   (\<forall>t\<in>set ss. \<exists>s\<in>set (deduplicateSuggestions ss). s_line s = s_line t \<and> title s = title t) \<and>
   (analyzeCode code0 language0 = Some r \<longrightarrow>
      (\<exists>ai. generateAISuggestions (newAIOptimizer code0 (toLowerCase language0) analysis0) = Some ai \<and>
         suggestions r =
           deduplicateSuggestions (generateSuggestions (lineByLine r) (patterns r) @ ai)))"
proof -
  have set_eq: "set (deduplicateSuggestions ss) = set (unseen {} ss)"
    by (simp add: deduplicateSuggestions_def set_stableSort)
  have "distinct (map suggestionKey (deduplicateSuggestions ss))"
    by (simp add: deduplicateSuggestions_def distinct_stableSort unseen_distinct)
  then have d: "distinct (map (\<lambda>s. (s_line s, title s)) (deduplicateSuggestions ss))"
    by (rule distinct_map_finer) (simp add: suggestionKey_eq_iff)
  have first: "\<forall>s\<in>set (deduplicateSuggestions ss).
      find (\<lambda>t. s_line t = s_line s \<and> title t = title s) ss = Some s"
  proof
    fix s assume "s \<in> set (deduplicateSuggestions ss)"
    then have "s \<in> set (unseen {} ss)" by (simp add: set_eq)
    then have "find (\<lambda>t. suggestionKey t = suggestionKey s) ss = Some s" by (rule unseen_first)
    then show "find (\<lambda>t. s_line t = s_line s \<and> title t = title s) ss = Some s"
      by (simp add: suggestionKey_eq_iff)
  qed
  have kept: "\<forall>t\<in>set ss. \<exists>s\<in>set (deduplicateSuggestions ss).
      s_line s = s_line t \<and> title s = title t"
  proof
    fix t assume "t \<in> set ss"
    then have "suggestionKey t \<in> suggestionKey ` set ss - {}" by simp
    then have "suggestionKey t \<in> suggestionKey ` set (unseen {} ss)"
      by (simp only: unseen_keys)
    then obtain s where "s \<in> set (unseen {} ss)" "suggestionKey s = suggestionKey t" by auto
    then show "\<exists>s\<in>set (deduplicateSuggestions ss). s_line s = s_line t \<and> title s = title t"
      by (auto simp: set_eq suggestionKey_eq_iff)
  qed
  have link: "analyzeCode code0 language0 = Some r \<longrightarrow>
      (\<exists>ai. generateAISuggestions (newAIOptimizer code0 (toLowerCase language0) analysis0) = Some ai \<and>
         suggestions r =
           deduplicateSuggestions (generateSuggestions (lineByLine r) (patterns r) @ ai))"
    by (rule impI) (rule analyzeCode_SomeD)
  from d first kept link show ?thesis by (intro conjI)
qed

theorem suggestions_deduplicated_witness:
  "deduplicateSuggestions duplicated = [otherNote, firstNote] \<and>
   distinct (map (\<lambda>s. (s_line s, title s)) (deduplicateSuggestions duplicated)) \<and>
   find (\<lambda>t. s_line t = s_line firstNote \<and> title t = title firstNote) duplicated =
     Some firstNote \<and>
   s_line laterNote = s_line firstNote \<and> title laterNote = title firstNote \<and>
   laterNote \<notin> set (deduplicateSuggestions duplicated) \<and>
   (\<exists>r ai. analyzeCode fibonacciPython ''python'' = Some r \<and>
      generateAISuggestions (newAIOptimizer fibonacciPython (toLowerCase ''python'') emptyAnalysis) =
        Some ai \<and>
      suggestions r =
        deduplicateSuggestions (generateSuggestions (lineByLine r) (patterns r) @ ai))"
proof -
  have e: "deduplicateSuggestions duplicated = [otherNote, firstNote]" by code_simp
  have same: "s_line laterNote = s_line firstNote \<and> title laterNote = title firstNote"
    by (simp add: laterNote_def firstNote_def)
  have gone: "laterNote \<notin> set (deduplicateSuggestions duplicated)"
    by (simp add: e laterNote_def firstNote_def otherNote_def)
  from fibonacci_analysis obtain r where r: "analyzeCode fibonacciPython ''python'' = Some r"
    by (elim exE conjE) (rule that)
  note t = suggestions_deduplicated[of duplicated fibonacciPython "''python''" r emptyAnalysis]
  from t have d: "distinct (map (\<lambda>s. (s_line s, title s)) (deduplicateSuggestions duplicated))"
    by (rule conjunct1)
  from t have "\<forall>s\<in>set (deduplicateSuggestions duplicated).
      find (\<lambda>t. s_line t = s_line s \<and> title t = title s) duplicated = Some s"
    by (elim conjE)
  moreover have "firstNote \<in> set (deduplicateSuggestions duplicated)" by (simp add: e)
  ultimately have f: "find (\<lambda>t. s_line t = s_line firstNote \<and> title t = title firstNote)
      duplicated = Some firstNote"
    by (rule bspec)
  from t r have "\<exists>ai. generateAISuggestions
        (newAIOptimizer fibonacciPython (toLowerCase ''python'') emptyAnalysis) = Some ai \<and>
      suggestions r =
        deduplicateSuggestions (generateSuggestions (lineByLine r) (patterns r) @ ai)"
    by (elim conjE impE) assumption+
  with r have l: "\<exists>r ai. analyzeCode fibonacciPython ''python'' = Some r \<and>
      generateAISuggestions (newAIOptimizer fibonacciPython (toLowerCase ''python'') emptyAnalysis) =
        Some ai \<and>
      suggestions r =
        deduplicateSuggestions (generateSuggestions (lineByLine r) (patterns r) @ ai)"
    by (elim exE conjE) (intro exI conjI)
  from e d f same gone l show ?thesis by (intro conjI) (elim conjE, assumption)+
qed

text \<open>
  C7: for every input and language tag, the returned suggestions are in non-increasing
  order of priority rank (high 3, medium 2, low 1), and the suggestions of each priority
  are in the order they had in the deduplicated list before the sort. The sort is taken
  to be stable, as the language standard requires since its 2019 edition.
\<close>

theorem suggestions_sorted:
  assumes "analyzeCode code0 language0 = Some r"
  shows "sorted_wrt (\<lambda>a b. priorityOrder (priority a) \<ge> priorityOrder (priority b)) (suggestions r) \<and>
         (\<forall>p. priorityOrder p = (case p of High \<Rightarrow> 3 | Medium \<Rightarrow> 2 | Low \<Rightarrow> 1)) \<and>
         (\<exists>ai. generateAISuggestions (newAIOptimizer code0 (toLowerCase language0) analysis0) = Some ai \<and>
            (\<forall>p. filter (\<lambda>s. priority s = p) (suggestions r) =
                  filter (\<lambda>s. priority s = p)
                    (unseen {} (generateSuggestions (lineByLine r) (patterns r) @ ai))))"
proof -
  from analyzeCode_SomeD[OF assms, of analysis0] obtain ai where
    ai: "generateAISuggestions (newAIOptimizer code0 (toLowerCase language0) analysis0) = Some ai"
    and sug: "suggestions r =
                deduplicateSuggestions (generateSuggestions (lineByLine r) (patterns r) @ ai)"
    by blast
  have a: "sorted_wrt (\<lambda>a b. priorityOrder (priority a) \<ge> priorityOrder (priority b)) (suggestions r)"
    by (simp add: sug deduplicateSuggestions_def sorted_stableSort)
  have b: "\<forall>p. priorityOrder p = (case p of High \<Rightarrow> 3 | Medium \<Rightarrow> 2 | Low \<Rightarrow> 1)"
    by (simp add: priorityOrder_def)
  have c: "\<forall>p. filter (\<lambda>s. priority s = p) (suggestions r) =
                  filter (\<lambda>s. priority s = p)
                    (unseen {} (generateSuggestions (lineByLine r) (patterns r) @ ai))"
    by (simp add: sug deduplicateSuggestions_def filter_stableSort)
  from a b c ai show ?thesis by blast
qed

theorem suggestions_sorted_witness:
  "\<exists>r. analyzeCode fibonacciPython ''python'' = Some r \<and>
       map priority (suggestions r) = [High, High, High] \<and>
       sorted_wrt (\<lambda>a b. priorityOrder (priority a) \<ge> priorityOrder (priority b)) (suggestions r)"
proof -
  from fibonacci_analysis obtain r where r: "analyzeCode fibonacciPython ''python'' = Some r"
    and l: "map priority (suggestions r) = [High, High, High]"
    by (elim exE conjE) (rule that)
  from suggestions_sorted[OF r, of emptyAnalysis]
  have "sorted_wrt (\<lambda>a b. priorityOrder (priority a) \<ge> priorityOrder (priority b)) (suggestions r)"
    by (rule conjunct1)
  with r l show ?thesis by (intro exI conjI)
qed

section \<open>Line records\<close>

lemma mapM_SomeD:
  "mapM f xs = Some ys \<Longrightarrow> y \<in> set ys \<Longrightarrow> \<exists>x\<in>set xs. f x = Some y"
proof (induction xs arbitrary: ys)
  case Nil
  then show ?case by simp
next
  case (Cons x xs)
  from Cons.prems(1) obtain z zs where z: "f x = Some z" and zs: "mapM f xs = Some zs"
    and ys: "ys = z # zs"
    by (auto split: option.splits)
  from Cons.prems(2) ys have "y = z \<or> y \<in> set zs" by simp
  then show ?case
  proof
    assume "y = z"
    with z show ?thesis by simp
  next
    assume "y \<in> set zs"
    from Cons.IH[OF zs this] show ?thesis by auto
  qed
qed

lemma analyzeLine_SomeD:
  assumes "analyzeLine this (i, line) = Some l"
  shows "lc_code l = line \<and>
         lc_complexity l \<in> {''O(1)'', ''O(n)'', ''O(2^n)''} \<and>
         (lc_severity l = High \<longleftrightarrow>
            isLoop this (trim line) = Some False \<and> isRecursiveCall (trim line))"
proof -
  from assms obtain loop where loop: "isLoop this (trim line) = Some loop"
    by (auto simp: analyzeLine_def getLineComplexity_def getNestedLoopDepth_def bind_eq_Some_conv)
  with assms show ?thesis
    by (cases loop; cases "isRecursiveCall (trim line)"; cases "isCollectionOperation (trim line)";
        cases "isHashOperation (trim line)")
       (auto simp: analyzeLine_def getLineComplexity_def getNestedLoopDepth_def)
qed

text \<open>
  C10, as the code has it: for every input and language tag, every line record carries
  one of the labels \<open>O(1)\<close>, \<open>O(n)\<close>, \<open>O(2^n)\<close>, the nested-depth helper returns 0
  on its line, and the record has severity high exactly when its trimmed line is not a
  loop header and matches the recursive-call heuristic.
\<close>

theorem line_labels:
  assumes "analyzeCode code0 language0 = Some r"
  shows "\<forall>l\<in>set (lineByLine r).
           lc_complexity l \<in> {''O(1)'', ''O(n)'', ''O(2^n)''} \<and>
           getNestedLoopDepth (trim (lc_code l)) = 0 \<and>
           (lc_severity l = High \<longleftrightarrow>
              isLoop (newComplexityDetector code0 language0) (trim (lc_code l)) = Some False \<and>
              isRecursiveCall (trim (lc_code l)))"
proof
  fix l assume l: "l \<in> set (lineByLine r)"
  let ?d = "newComplexityDetector code0 language0"
  from analyze_SomeD[OF assms[unfolded analyzeCode_def]]
  have "analyzeLines ?d = Some (lineByLine r)" by blast
  then have "mapM (analyzeLine ?d) (enumerate 0 (lines ?d)) = Some (lineByLine r)"
    by (simp add: analyzeLines_def)
  from mapM_SomeD[OF this l] obtain i line where "analyzeLine ?d (i, line) = Some l"
    by auto
  from analyzeLine_SomeD[OF this]
  show "lc_complexity l \<in> {''O(1)'', ''O(n)'', ''O(2^n)''} \<and>
           getNestedLoopDepth (trim (lc_code l)) = 0 \<and>
           (lc_severity l = High \<longleftrightarrow>
              isLoop ?d (trim (lc_code l)) = Some False \<and>
              isRecursiveCall (trim (lc_code l)))"
    by (simp add: getNestedLoopDepth_def)
qed

theorem line_labels_witness:
  "\<exists>r. analyzeCode fibonacciPython ''python'' = Some r \<and> lineByLine r \<noteq> [] \<and>
       (\<forall>l\<in>set (lineByLine r). lc_complexity l \<in> {''O(1)'', ''O(n)'', ''O(2^n)''})"
proof -
  from fibonacci_analysis obtain r where r: "analyzeCode fibonacciPython ''python'' = Some r"
    and p: "map startLine (patterns r) = [1, 4]"
    by (elim exE conjE) (rule that)
  from analyze_SomeD[OF r[unfolded analyzeCode_def], of emptyAnalysis]
  have "analyzeLines (newComplexityDetector fibonacciPython ''python'') = Some (lineByLine r)"
    by (elim exE conjE) simp
  then have n: "lineByLine r \<noteq> []"
    by (auto simp: analyzeLines_def newComplexityDetector_def fibonacciPython_def enumerate_eq_zip
        split: option.splits)
  from line_labels[OF r]
  have "\<forall>l\<in>set (lineByLine r). lc_complexity l \<in> {''O(1)'', ''O(n)'', ''O(2^n)''}"
    by (intro ballI) (drule bspec, assumption, erule conjunct1)
  with r n show ?thesis by (intro exI conjI)
qed

text \<open>
  The claim C10 as stated fails on a loop header that also has the shape of a recursive
  call: the line matches the recursive-call heuristic and its severity is medium.
\<close>

theorem line_severity_counterexample:
  "isRecursiveCall (trim whileHeader) \<and>
   map_option (map lc_severity \<circ> lineByLine) (analyzeCode whileHeader ''cpp'') = Some [Medium]"
  using whileHeader_recursive whileHeader_analysis by auto

section \<open>Scenario A: a single loop\<close>

text \<open>
  C1, as the code has it: for the three-line single loop under the tag \<open>cpp\<close>, the
  analysis finds no pattern (only nested loops and recursive calls become patterns), so
  the overall time is \<open>O(1)\<close> and the score is 100; the record of the loop header has
  severity medium.
\<close>

theorem single_loop_result:
  "map_option (time \<circ> overall) (analyzeCode singleLoop ''cpp'') = Some ''O(1)'' \<and>
   map_option (score \<circ> overall) (analyzeCode singleLoop ''cpp'') = Some 100 \<and>
   map_option patterns (analyzeCode singleLoop ''cpp'') = Some [] \<and>
   map_option (map lc_severity \<circ> lineByLine) (analyzeCode singleLoop ''cpp'') =
     Some [Medium, Low, Low]"
  using singleLoop_analysis by (elim exE conjE) simp

text \<open>The claim C1 as stated fails: the time is not \<open>O(n)\<close> and the score is not 90.\<close>

theorem single_loop_counterexample:
  "map_option (time \<circ> overall) (analyzeCode singleLoop ''cpp'') \<noteq> Some ''O(n)'' \<and>
   map_option (score \<circ> overall) (analyzeCode singleLoop ''cpp'') \<noteq> Some 90"
  using singleLoop_analysis by (elim exE conjE) simp

section \<open>Nested patterns at the end of the input\<close>

text \<open>
  What the detector guarantees for every input: each nested pattern is well placed. The
  end line can be one more than the number of lines, when the scan leaves its loop
  without meeting the closing line.
\<close>

lemma nestedScan_bounds:
  "nestedScan this s d m c b = Some (m', c') \<Longrightarrow>
   c \<le> c' \<and> (c \<le> length (lines this) \<longrightarrow> c' \<le> length (lines this)) \<and> m \<le> m'"
proof (induction this s d m c b rule: nestedScan.induct)
  case (1 this s d m c b)
  show ?case
  proof (cases "c < length (lines this)")
    case False
    with "1.prems" show ?thesis by (simp add: nestedScan.simps[of this s d m c b])
  next
    case True
    show ?thesis
    proof (cases "isLoop this (trim (lines this ! c))")
      case None
      with "1.prems" True show ?thesis by (simp add: nestedScan.simps[of this s d m c b])
    next
      case (Some l)
      from "1.prems" True Some "1.IH"[OF True refl Some refl refl refl refl refl] show ?thesis
        by (subst (asm) nestedScan.simps) (auto simp: Let_def split: if_splits)
    qed
  qed
qed

lemma analyzeNestedStructure_wellPlaced:
  assumes "analyzeNestedStructure this i = Some (Some np)" and "i < length (lines this)"
  shows "wellPlaced this np"
proof -
  from assms(1) obtain m c where scan: "nestedScan this i 0 1 i 0 = Some (m, c)" and m: "1 < m"
    and np: "np = \<lparr>p_type = Nested, startLine = i + 1, endLine = c + 1,
                    p_complexity = ''O(n^'' @ showNat m @ '')'',
                    p_description = ''Nested loops with depth '' @ showNat m,
                    impact = (if m > 2 then High else Medium)\<rparr>"
    by (auto simp: analyzeNestedStructure_def split: option.splits if_splits)
  from nestedScan_bounds[OF scan] assms(2) have "i \<le> c" "c \<le> length (lines this)" by simp_all
  with m np show ?thesis unfolding wellPlaced_def by (intro impI conjI exI[of _ m]) simp_all
qed

lemma detectLoop_wellPlaced:
  "detectLoop this i ps0 = Some ps \<Longrightarrow> \<forall>p\<in>set ps0. wellPlaced this p \<Longrightarrow>
   \<forall>p\<in>set ps. wellPlaced this p"
proof (induction this i ps0 rule: detectLoop.induct)
  case (1 this i ps0)
  show ?case
  proof (cases "i < length (lines this)")
    case False
    with "1.prems" show ?thesis by (simp add: detectLoop.simps[of this i ps0])
  next
    case True
    let ?line = "trim (lines this ! i)"
    from "1.prems"(1) True obtain loop where loop: "isLoop this ?line = Some loop"
      by (cases "isLoop this ?line") (simp_all add: detectLoop.simps[of this i ps0])
    let ?res = "if loop then analyzeNestedStructure this i else Some None"
    from "1.prems"(1) True loop obtain found where found: "?res = Some found"
      by (cases ?res) (simp_all add: detectLoop.simps[of this i ps0])
    show ?thesis
    proof (cases found)
      case None
      let ?ps1 = "if isRecursiveCall ?line then
                    ps0 @ [\<lparr>p_type = Recursion, startLine = i + 1, endLine = i + 1,
                             p_complexity = ''O(2^n)'',
                             p_description = ''Recursive function call detected'',
                             impact = High\<rparr>]
                  else ps0"
      from "1.prems"(1) True loop found None have run: "detectLoop this (i + 1) ?ps1 = Some ps"
        by (simp add: detectLoop.simps[of this i ps0])
      have "\<forall>p\<in>set ?ps1. wellPlaced this p"
        using "1.prems"(2) by (auto simp: wellPlaced_def)
      from "1.IH"(1)[OF True refl loop found None run this] show ?thesis .
    next
      case (Some np)
      from "1.prems"(1) True loop found Some
      have run: "detectLoop this (endLine np) (ps0 @ [np]) = Some ps"
        by (simp add: detectLoop.simps[of this i ps0])
      from found Some have "analyzeNestedStructure this i = Some (Some np)"
        by (simp split: if_splits)
      from analyzeNestedStructure_wellPlaced[OF this True] "1.prems"(2)
      have "\<forall>p\<in>set (ps0 @ [np]). wellPlaced this p" by simp
      from "1.IH"(2)[OF True refl loop found Some run this] show ?thesis .
    qed
  qed
qed

lemma nested_pattern_bounds:
  assumes "analyzeCode code0 language0 = Some r"
  shows "\<forall>p\<in>set (patterns r). p_type p = Nested \<longrightarrow>
           1 \<le> startLine p \<and> startLine p \<le> endLine p \<and>
           endLine p \<le> length (splitLines code0) + 1 \<and>
           (\<exists>d\<ge>2. p_complexity p = ''O(n^'' @ showNat d @ '')'')"
proof -
  let ?d = "newComplexityDetector code0 language0"
  from analyze_SomeD[OF assms[unfolded analyzeCode_def], of emptyAnalysis]
  have "detectPatterns ?d = Some (patterns r)" by (elim exE conjE) simp
  then have "detectLoop ?d 0 [] = Some (patterns r)" by (simp add: detectPatterns_def)
  from detectLoop_wellPlaced[OF this] have "\<forall>p\<in>set (patterns r). wellPlaced ?d p" by simp
  then show ?thesis by (simp add: wellPlaced_def newComplexityDetector_def)
qed

text \<open>
  C2 at an input of three lines whose nested block is not closed line by line: the
  nested pattern ends at line 4.
\<close>

theorem nested_end_line_past_input:
  "length (splitLines compactNest) = 3 \<and>
   map_option (map p_type \<circ> patterns) (analyzeCode compactNest ''cpp'') = Some [Nested] \<and>
   map_option (map startLine \<circ> patterns) (analyzeCode compactNest ''cpp'') = Some [1] \<and>
   map_option (map endLine \<circ> patterns) (analyzeCode compactNest ''cpp'') = Some [4]"
  using compactNest_lines compactNest_analysis by (elim exE conjE) simp

section \<open>Unrecognized language tags\<close>

text \<open>
  C3, as the code has it: when the lower-cased tag is none of \<open>cpp\<close>, \<open>java\<close>,
  \<open>python\<close> (and none of the two names every object inherits), the loop-header
  recognizer of the detector and that of the optimizer answer false for every line.
\<close>

theorem unrecognized_tag_is_no_loop:
  assumes "toLowerCase language0 \<notin> {''cpp'', ''java'', ''python'', ''constructor'', ''__proto__''}"
  shows "isLoop (newComplexityDetector code0 language0) line = Some False \<and>
         ai_isLoop (newAIOptimizer code0 language0 analysis0) line = Some False"
  using assms
  by (simp add: isLoop_def ai_isLoop_def newComplexityDetector_def newAIOptimizer_def
      loopTest_def loopPatterns_def)

theorem unrecognized_tag_is_no_loop_witness:
  "toLowerCase ''JavaScript'' \<notin> {''cpp'', ''java'', ''python'', ''constructor'', ''__proto__''} \<and>
   isLoop (newComplexityDetector loopHeader ''JavaScript'') loopHeader = Some False \<and>
   ai_isLoop (newAIOptimizer loopHeader ''JavaScript'' emptyAnalysis) loopHeader = Some False"
proof -
  have t: "toLowerCase ''JavaScript'' \<notin> {''cpp'', ''java'', ''python'', ''constructor'', ''__proto__''}"
    by code_simp
  from t unrecognized_tag_is_no_loop[OF t] show ?thesis by (intro conjI) simp_all
qed

text \<open>
  The claim C3 as stated fails: under the tag \<open>javascript\<close> the C-family loop header
  is not classified as a loop, and the analysis differs from the one under \<open>cpp\<close>.
\<close>

theorem unrecognized_tag_counterexample:
  "isLoop (newComplexityDetector loopHeader ''javascript'') loopHeader = Some False \<and>
   isLoop (newComplexityDetector loopHeader ''cpp'') loopHeader = Some True \<and>
   analyzeCode loopHeader ''javascript'' \<noteq> analyzeCode loopHeader ''cpp''"
proof -
  have a: "isLoop (newComplexityDetector loopHeader ''javascript'') loopHeader = Some False"
    by code_simp
  have b: "isLoop (newComplexityDetector loopHeader ''cpp'') loopHeader = Some True"
    by code_simp
  from loopHeader_javascript loopHeader_cpp
  have c: "analyzeCode loopHeader ''javascript'' \<noteq> analyzeCode loopHeader ''cpp''"
    by (elim exE conjE) auto
  from a b c show ?thesis by (intro conjI)
qed

section \<open>Scenario C: the recursive Fibonacci function\<close>

text \<open>
  C4, as the code has it: for the four-line Python function \<open>fibonacci\<close>, the analysis
  produces two patterns of kind recursion with complexity \<open>O(2^n)\<close> (the line with
  \<open>def\<close> and the line with the two calls), an overall score of 20 (100 minus 40 for
  each), and a high-priority suggestion titled \<open>Implement memoization for recursive
  function\<close> whose example is built from the extracted name \<open>fibonacci\<close> and contains
  it.
\<close>

theorem fibonacci_python_result:
  "map_option (map p_type \<circ> patterns) (analyzeCode fibonacciPython ''python'') =
     Some [Recursion, Recursion] \<and>
   map_option (map p_complexity \<circ> patterns) (analyzeCode fibonacciPython ''python'') =
     Some [''O(2^n)'', ''O(2^n)''] \<and>
   map_option (map startLine \<circ> patterns) (analyzeCode fibonacciPython ''python'') = Some [1, 4] \<and>
   map_option (time \<circ> overall) (analyzeCode fibonacciPython ''python'') = Some ''O(2^n)'' \<and>
   map_option (score \<circ> overall) (analyzeCode fibonacciPython ''python'') = Some 20 \<and>
   map_option (map title \<circ> suggestions) (analyzeCode fibonacciPython ''python'') =
     Some [''Optimize recursion'', ''Optimize recursion'',
           ''Implement memoization for recursive function''] \<and>
   map_option (map priority \<circ> suggestions) (analyzeCode fibonacciPython ''python'') =
     Some [High, High, High] \<and>
   map_option (map example \<circ> suggestions) (analyzeCode fibonacciPython ''python'') =
     Some [Some ''Add a cache to store previously computed results.'',
           Some ''Add a cache to store previously computed results.'',
           Some (getMemoizationExample ''fibonacci'')] \<and>
   includesStr (getMemoizationExample ''fibonacci'') ''fibonacci''"
  using fibonacci_analysis memoization_names_function by (elim exE conjE) simp

text \<open>The claim C4 as stated fails: the score is not 60.\<close>

theorem fibonacci_python_counterexample:
  "map_option (score \<circ> overall) (analyzeCode fibonacciPython ''python'') \<noteq> Some 60"
  using fibonacci_analysis by (elim exE conjE) simp

end
